theory Spec2Isabelle
  imports Complex_Main
begin

section \<open>JavaScript numbers\<close>

text \<open>
  The three applications compute with JavaScript numbers. A number is modelled as a real
  or one of the three special values of IEEE 754. Arithmetic on finite values is exact
  (rounding and overflow of finite results are not modelled), the special values follow
  the IEEE rules, and zero stands for positive zero (the only divisors the programs
  produce are square roots and literals, which are never negative zero).
\<close>

datatype jsnum = Fin real | PInf | NInf | NaN

fun js_neg :: "jsnum \<Rightarrow> jsnum" where
  "js_neg (Fin a) = Fin (- a)"
| "js_neg PInf = NInf"
| "js_neg NInf = PInf"
| "js_neg NaN = NaN"

fun js_add :: "jsnum \<Rightarrow> jsnum \<Rightarrow> jsnum" where
  "js_add (Fin a) (Fin b) = Fin (a + b)"
| "js_add (Fin a) PInf = PInf"
| "js_add (Fin a) NInf = NInf"
| "js_add PInf (Fin b) = PInf"
| "js_add PInf PInf = PInf"
| "js_add PInf NInf = NaN"
| "js_add NInf (Fin b) = NInf"
| "js_add NInf PInf = NaN"
| "js_add NInf NInf = NInf"
| "js_add NaN b = NaN"
| "js_add a NaN = NaN"

definition js_sub :: "jsnum \<Rightarrow> jsnum \<Rightarrow> jsnum" where
  "js_sub a b = js_add a (js_neg b)"

fun js_mul :: "jsnum \<Rightarrow> jsnum \<Rightarrow> jsnum" where
  "js_mul (Fin a) (Fin b) = Fin (a * b)"
| "js_mul (Fin a) PInf = (if 0 < a then PInf else if a < 0 then NInf else NaN)"
| "js_mul (Fin a) NInf = (if 0 < a then NInf else if a < 0 then PInf else NaN)"
| "js_mul PInf (Fin b) = (if 0 < b then PInf else if b < 0 then NInf else NaN)"
| "js_mul NInf (Fin b) = (if 0 < b then NInf else if b < 0 then PInf else NaN)"
| "js_mul PInf PInf = PInf"
| "js_mul PInf NInf = NInf"
| "js_mul NInf PInf = NInf"
| "js_mul NInf NInf = PInf"
| "js_mul NaN b = NaN"
| "js_mul a NaN = NaN"

fun js_div :: "jsnum \<Rightarrow> jsnum \<Rightarrow> jsnum" where
  "js_div (Fin a) (Fin b) =
     (if b \<noteq> 0 then Fin (a / b)
      else if 0 < a then PInf else if a < 0 then NInf else NaN)"
| "js_div (Fin a) PInf = Fin 0"
| "js_div (Fin a) NInf = Fin 0"
| "js_div PInf (Fin b) = (if 0 \<le> b then PInf else NInf)"
| "js_div NInf (Fin b) = (if 0 \<le> b then NInf else PInf)"
| "js_div PInf PInf = NaN"
| "js_div PInf NInf = NaN"
| "js_div NInf PInf = NaN"
| "js_div NInf NInf = NaN"
| "js_div NaN b = NaN"
| "js_div a NaN = NaN"

fun Math_sqrt :: "jsnum \<Rightarrow> jsnum" where
  "Math_sqrt (Fin a) = (if a < 0 then NaN else Fin (sqrt a))"
| "Math_sqrt PInf = PInf"
| "Math_sqrt NInf = NaN"
| "Math_sqrt NaN = NaN"

text \<open>\<open>Math.pow(b, n)\<close> for the non-negative integer exponents the programs use.\<close>

fun Math_pow :: "jsnum \<Rightarrow> nat \<Rightarrow> jsnum" where
  "Math_pow b 0 = Fin 1"
| "Math_pow b (Suc n) = js_mul b (Math_pow b n)"

fun js_lt :: "jsnum \<Rightarrow> jsnum \<Rightarrow> bool" where
  "js_lt (Fin a) (Fin b) = (a < b)"
| "js_lt (Fin a) PInf = True"
| "js_lt NInf (Fin b) = True"
| "js_lt NInf PInf = True"
| "js_lt a b = False"

definition js_le :: "jsnum \<Rightarrow> jsnum \<Rightarrow> bool" where
  "js_le a b = (a \<noteq> NaN \<and> b \<noteq> NaN \<and> (a = b \<or> js_lt a b))"

definition is_finite :: "jsnum \<Rightarrow> bool" where
  "is_finite a = (case a of Fin r \<Rightarrow> True | _ \<Rightarrow> False)"

text \<open>Truthiness of a number, and of a property that may be absent (\<open>undefined\<close>).\<close>

definition truthy :: "jsnum \<Rightarrow> bool" where
  "truthy a = (a \<noteq> NaN \<and> a \<noteq> Fin 0)"

definition ToNumber :: "jsnum option \<Rightarrow> jsnum" where
  "ToNumber v = (case v of None \<Rightarrow> NaN | Some a \<Rightarrow> a)"

text \<open>\<open>a || b\<close> on properties that hold a number or are absent.\<close>

definition js_or :: "jsnum option \<Rightarrow> jsnum option \<Rightarrow> jsnum option" where
  "js_or a b = (case a of None \<Rightarrow> b | Some v \<Rightarrow> if truthy v then Some v else b)"

text \<open>\<open>Math.min(...xs)\<close> and \<open>Math.max(...xs)\<close>: a NaN argument makes the result NaN.\<close>

definition js_min2 :: "jsnum \<Rightarrow> jsnum \<Rightarrow> jsnum" where
  "js_min2 a b = (if a = NaN \<or> b = NaN then NaN else if js_lt b a then b else a)"

definition js_max2 :: "jsnum \<Rightarrow> jsnum \<Rightarrow> jsnum" where
  "js_max2 a b = (if a = NaN \<or> b = NaN then NaN else if js_lt a b then b else a)"

definition Math_min :: "jsnum list \<Rightarrow> jsnum" where
  "Math_min xs = foldl js_min2 PInf xs"

definition Math_max :: "jsnum list \<Rightarrow> jsnum" where
  "Math_max xs = foldl js_max2 NInf xs"

section \<open>Data shared by the three applications\<close>

text \<open>
  The repository holds three versions of one browser application: the two-point linear
  variant (class \<open>DistanceMeasurementApp\<close>), the OpenCV variant (\<open>scripts/app.js\<close>) and the
  hybrid variant, which falls back from the library to an enhanced two-point path. Each
  is a class whose methods run as handlers of page events. A method is modelled as a
  function from the state before to the state after; the functions keep the methods'
  names, with the variant as a prefix where two variants differ.

  What is taken from the environment: a canvas click arrives with its canvas
  coordinates and one reading of the clock (\<open>Date.now()\<close> and \<open>new Date()\<close> of one handler
  run read the same time); the value of a reference selector is an argument of the
  handler that reads it; whether the camera could be opened is an argument of
  \<open>selectMode\<close>; the external vision library is a parameter. The elements of the page
  exist, the canvas exists when a click arrives, and the unit selector offers the keys
  of the unit table, so that no handler throws on a missing element or unit. A handler
  runs to its end before the next one starts. Canvas drawing, sounds, button captions
  and the progress bar are not modelled.
\<close>

text \<open>A clicked measurement point \<open>{x, y, timestamp}\<close> and a calibration corner
  \<open>{x, y, step}\<close>, in canvas coordinates.\<close>

record point =
  p_x :: jsnum
  p_y :: jsnum
  p_timestamp :: nat

record corner =
  c_x :: jsnum
  c_y :: jsnum
  c_step :: nat

text \<open>The Euclidean pixel distance, as every variant writes it:
  \<open>Math.sqrt(Math.pow(x2 - x1, 2) + Math.pow(y2 - y1, 2))\<close>.\<close>

definition euclid :: "jsnum \<Rightarrow> jsnum \<Rightarrow> jsnum \<Rightarrow> jsnum \<Rightarrow> jsnum" where
  "euclid x1 y1 x2 y2 =
     Math_sqrt (js_add (Math_pow (js_sub x2 x1) 2) (Math_pow (js_sub y2 y1) 2))"

definition pixelDistance :: "point \<Rightarrow> point \<Rightarrow> jsnum" where
  "pixelDistance p1 p2 = euclid (p_x p1) (p_y p1) (p_x p2) (p_y p2)"

text \<open>The unit table \<open>this.units\<close>; the unit selector offers its five keys.\<close>

datatype unit_code = U_mm | U_cm | U_m | U_in | U_ft

fun factor :: "unit_code \<Rightarrow> jsnum" where
  "factor U_mm = Fin 1"
| "factor U_cm = Fin (1 / 10)"
| "factor U_m = Fin (1 / 1000)"
| "factor U_in = Fin (393701 / 10000000)"
| "factor U_ft = Fin (328084 / 100000000)"

text \<open>A reference object; a property the literal does not give is absent.\<close>

record reference =
  ref_name :: string
  ref_width :: "jsnum option"
  ref_height :: "jsnum option"
  ref_diameter :: "jsnum option"

definition rect_ref :: "string \<Rightarrow> real \<Rightarrow> real \<Rightarrow> reference" where
  "rect_ref n w h =
     \<lparr>ref_name = n, ref_width = Some (Fin w), ref_height = Some (Fin h), ref_diameter = None\<rparr>"

definition round_ref :: "string \<Rightarrow> real \<Rightarrow> reference" where
  "round_ref n d =
     \<lparr>ref_name = n, ref_width = None, ref_height = None, ref_diameter = Some (Fin d)\<rparr>"

text \<open>\<open>sel?.value || 'credit_card'\<close>: a missing selector or an empty value gives the
  default key.\<close>

definition referenceKey :: "string option \<Rightarrow> string" where
  "referenceKey sel = (case sel of None \<Rightarrow> ''credit_card'' | Some v \<Rightarrow> if v = [] then ''credit_card'' else v)"

text \<open>A stored measurement. The three variants write object literals with different
  keys; a key a literal does not have is \<open>None\<close>. Every literal has the key \<open>mode\<close>;
  \<open>m_mode\<close> is \<open>None\<close> when it holds \<open>null\<close>.\<close>

record measurement =
  m_id :: nat
  m_distance :: jsnum
  m_displayDistance :: jsnum
  m_unit :: unit_code
  m_timestamp :: nat
  m_points :: "point list"
  m_mode :: "string option"
  m_calibrationFactor :: "jsnum option"
  m_correctedPoints :: "(jsnum option \<times> jsnum option) list option"
  m_accuracy :: "string option"
  m_method :: "string option"

text \<open>The exported document: the entries and the summary (the device and settings
  blocks, which no measurement enters, are left out).\<close>

record export_entry =
  e_id :: nat
  e_distance_mm :: jsnum
  e_distance_display :: jsnum
  e_unit :: unit_code
  e_timestamp :: nat
  e_mode :: "string option"
  e_points :: "point list option"
  e_accuracy :: "string option"
  e_method :: "string option"

record export_doc =
  doc_appName :: string
  doc_version :: string
  doc_isCalibrated :: bool
  doc_measurements :: "export_entry list"
  doc_totalMeasurements :: nat
  doc_averageDistance :: jsnum
  doc_minDistance :: jsnum
  doc_maxDistance :: jsnum

text \<open>\<open>xs.reduce((sum, m) => sum + m.distance, 0)\<close>.\<close>

definition sumDistance :: "measurement list \<Rightarrow> jsnum" where
  "sumDistance ms = foldl (\<lambda>sum m. js_add sum (m_distance m)) (Fin 0) ms"

definition summary_average :: "measurement list \<Rightarrow> jsnum" where
  "summary_average ms = js_div (sumDistance ms) (Fin (real (length ms)))"

text \<open>The calibration data object of the OpenCV and hybrid variants; absent keys are
  \<open>None\<close>. \<open>'m\<close> is the external library's matrix handle.\<close>

record 'm calibration =
  cd_pixelsPerMM :: "jsnum option"
  cd_perspectiveMatrix :: "'m option"
  cd_referenceObject :: reference
  cd_scale :: "jsnum option"
  cd_mode :: "string option"
  cd_calibrationFactor :: "jsnum option"
  cd_distanceCorrection :: "jsnum option"

text \<open>What a handler does besides updating the fields: calls into the external vision
  library, messages, modals and the downloaded file. A message text is the source's
  without the pictogram; a text with an interpolated value, a double quote or a
  character outside ASCII is shortened to its opening words.\<close>

datatype 'm effect =
    ShowMessage string
  | ShowError string
  | ShowModal string
  | HideModal string
  | InitCamera
  | Download export_doc
  | CvMatFromArray "jsnum list"
  | CvNewMat
  | CvGetPerspectiveTransform "jsnum list" "jsnum list"
  | CvPerspectiveTransform "jsnum list" 'm
  | CvDelete

definition is_cv :: "'m effect \<Rightarrow> bool" where
  "is_cv e = (case e of CvMatFromArray _ \<Rightarrow> True | CvNewMat \<Rightarrow> True
     | CvGetPerspectiveTransform _ _ \<Rightarrow> True | CvPerspectiveTransform _ _ \<Rightarrow> True
     | CvDelete \<Rightarrow> True | _ \<Rightarrow> False)"

text \<open>The external library: the homography solve and the point transform. \<open>None\<close> is
  a thrown exception.\<close>

record 'm cvlib =
  getPerspectiveTransform :: "jsnum list \<Rightarrow> jsnum list \<Rightarrow> 'm option"
  perspectiveTransform :: "jsnum list \<Rightarrow> 'm \<Rightarrow> jsnum list option"

text \<open>The application state: the fields of the three classes (a variant's handlers read
  and write only the fields its class declares; \<open>isOpenCVReady\<close> is a global of the
  OpenCV variant and a field of the hybrid one), the canvas size, and the log \<open>out\<close> of
  effects.\<close>

record 'm app =
  currentMode :: "string option"
  isCalibrated :: bool
  calibrationFactor :: jsnum
  calibrationData :: "'m calibration option"
  measurements :: "measurement list"
  measurementPoints :: "point list"
  calibrationPoints :: "corner list"
  currentUnit :: unit_code
  isMeasuring :: bool
  isCalibrationMode :: bool
  referenceObject :: "reference option"
  perspectiveMatrix :: "'m option"
  currentStep :: nat
  isOpenCVReady :: bool
  openCVFailed :: bool
  canvasWidth :: nat
  canvasHeight :: nat
  out :: "'m effect list"

definition emit :: "'m effect \<Rightarrow> 'm app \<Rightarrow> 'm app" where
  "emit e s = s\<lparr>out := out s @ [e]\<rparr>"

definition cv_calls :: "'m app \<Rightarrow> 'm effect list" where
  "cv_calls s = filter is_cv (out s)"

text \<open>The constructors: every variant starts with the same values.\<close>

definition constructor :: "'m app" where
  "constructor =
     \<lparr>currentMode = None, isCalibrated = False, calibrationFactor = Fin 1,
      calibrationData = None, measurements = [], measurementPoints = [],
      calibrationPoints = [], currentUnit = U_m, isMeasuring = False,
      isCalibrationMode = False, referenceObject = None, perspectiveMatrix = None,
      currentStep = 0, isOpenCVReady = False, openCVFailed = False,
      canvasWidth = 0, canvasHeight = 0, out = []\<rparr>"

definition setupCanvas :: "nat \<Rightarrow> nat \<Rightarrow> 'm app \<Rightarrow> 'm app" where
  "setupCanvas w h s = s\<lparr>canvasWidth := w, canvasHeight := h\<rparr>"

section \<open>The two-point linear variant\<close>

definition linear_referenceObjects :: "string \<Rightarrow> reference option" where
  "linear_referenceObjects k =
     (if k = ''credit_card'' then Some (rect_ref ''Credit Card'' (856 / 10) (5398 / 100))
      else if k = ''quarter'' then Some (round_ref ''US Quarter'' (2426 / 100))
      else if k = ''iphone'' then Some (rect_ref ''iPhone Standard'' (673 / 10) (1384 / 10))
      else if k = ''a4_paper'' then Some (rect_ref ''A4 Paper'' 210 297)
      else if k = ''business_card'' then Some (rect_ref ''Business Card'' 89 51)
      else None)"

definition linear_initializeCameraMode :: "bool \<Rightarrow> 'm app \<Rightarrow> 'm app" where
  "linear_initializeCameraMode cam_ok s =
     (if cam_ok then
        (if \<not> isCalibrated s then emit (ShowModal ''calibrationModal'') (emit InitCamera s)
         else emit InitCamera s)
      else emit (ShowError ''Failed to access camera. Please check permissions and try again.'') s)"

definition linear_initializeARMode :: "bool \<Rightarrow> 'm app \<Rightarrow> 'm app" where
  "linear_initializeARMode cam_ok s =
     linear_initializeCameraMode cam_ok
       (emit (ShowMessage ''AR mode is being prepared. Using enhanced camera mode.'') s)"

definition linear_selectMode :: "string \<Rightarrow> bool \<Rightarrow> 'm app \<Rightarrow> 'm app" where
  "linear_selectMode md cam_ok s =
     (let s1 = s\<lparr>currentMode := Some md\<rparr>
      in if md = ''ar'' then linear_initializeARMode cam_ok s1
         else linear_initializeCameraMode cam_ok s1)"

definition linear_startCalibration :: "'m app \<Rightarrow> 'm app" where
  "linear_startCalibration s =
     emit (ShowMessage ''Click on both ends of your reference object to calibrate'')
       ((emit (HideModal ''calibrationModal'') s)
          \<lparr>measurementPoints := [], isCalibrationMode := True, isMeasuring := True\<rparr>)"

definition linear_completeCalibration :: "string option \<Rightarrow> 'm app \<Rightarrow> 'm app" where
  "linear_completeCalibration sel s =
     (case linear_referenceObjects (referenceKey sel) of
        None \<Rightarrow> s
      | Some reference \<Rightarrow>
          (case measurementPoints s of
             [p1, p2] \<Rightarrow>
               (let realSize = js_or (ref_width reference) (ref_diameter reference)
                in emit (ShowMessage ''Calibration successful! You can now measure objects accurately.'')
                     (s\<lparr>calibrationFactor := js_div (ToNumber realSize) (pixelDistance p1 p2),
                        isCalibrated := True, isCalibrationMode := False,
                        isMeasuring := False, measurementPoints := []\<rparr>))
           | _ \<Rightarrow> s))"

definition linear_calculateDistance :: "nat \<Rightarrow> 'm app \<Rightarrow> 'm app" where
  "linear_calculateDistance now s =
     (case measurementPoints s of
        [p1, p2] \<Rightarrow>
          (let distanceInMM = js_mul (pixelDistance p1 p2) (calibrationFactor s);
               distanceInUnit = js_mul distanceInMM (factor (currentUnit s));
               m = \<lparr>m_id = now, m_distance = distanceInMM, m_displayDistance = distanceInUnit,
                    m_unit = currentUnit s, m_timestamp = now, m_points = measurementPoints s,
                    m_mode = currentMode s, m_calibrationFactor = Some (calibrationFactor s),
                    m_correctedPoints = None, m_accuracy = None, m_method = None\<rparr>
           in emit (ShowMessage ''Distance measured'')
                (s\<lparr>measurements := measurements s @ [m], measurementPoints := [],
                   isMeasuring := False\<rparr>))
      | _ \<Rightarrow> s)"

text \<open>A canvas click at canvas coordinates \<open>(x, y)\<close> at clock time \<open>now\<close>; \<open>sel\<close> is the
  value of the reference selector.\<close>

definition linear_handleCanvasClick ::
  "string option \<Rightarrow> jsnum \<Rightarrow> jsnum \<Rightarrow> nat \<Rightarrow> 'm app \<Rightarrow> 'm app" where
  "linear_handleCanvasClick sel x y now s =
     (if \<not> isMeasuring s then s
      else
        (let s1 = s\<lparr>measurementPoints :=
                      measurementPoints s @ [\<lparr>p_x = x, p_y = y, p_timestamp = now\<rparr>]\<rparr>
         in if isCalibrationMode s1 \<and> length (measurementPoints s1) = 2
            then linear_completeCalibration sel s1
            else if \<not> isCalibrationMode s1 \<and> length (measurementPoints s1) = 2
            then linear_calculateDistance now s1
            else s1))"

definition linear_startMeasuring :: "'m app \<Rightarrow> 'm app" where
  "linear_startMeasuring s =
     emit (ShowMessage ''Measurement mode active. Click two points to measure.'')
       (s\<lparr>isMeasuring := True, measurementPoints := []\<rparr>)"

definition linear_stopMeasuring :: "'m app \<Rightarrow> 'm app" where
  "linear_stopMeasuring s = s\<lparr>isMeasuring := False, measurementPoints := []\<rparr>"

definition linear_toggleMeasurement :: "'m app \<Rightarrow> 'm app" where
  "linear_toggleMeasurement s =
     (if \<not> isCalibrated s \<and> currentMode s = Some ''camera''
      then emit (ShowModal ''calibrationModal'') s
      else if isMeasuring s then linear_stopMeasuring s
      else linear_startMeasuring s)"

definition linear_clearMeasurements :: "'m app \<Rightarrow> 'm app" where
  "linear_clearMeasurements s =
     emit (ShowMessage ''All measurements cleared'')
       (s\<lparr>measurementPoints := [], measurements := [], isMeasuring := False\<rparr>)"

definition linear_entry :: "measurement \<Rightarrow> export_entry" where
  "linear_entry m =
     \<lparr>e_id = m_id m, e_distance_mm = m_distance m, e_distance_display = m_displayDistance m,
      e_unit = m_unit m, e_timestamp = m_timestamp m, e_mode = m_mode m,
      e_points = Some (m_points m), e_accuracy = None, e_method = None\<rparr>"

definition linear_exportMeasurements :: "'m app \<Rightarrow> 'm app" where
  "linear_exportMeasurements s =
     (if length (measurements s) = 0 then emit (ShowError ''No measurements to export'') s
      else
        emit (ShowMessage ''Measurements exported successfully'')
          (emit (Download
             \<lparr>doc_appName = ''Distance Measurement App'', doc_version = ''1.0'',
              doc_isCalibrated = isCalibrated s,
              doc_measurements = map linear_entry (measurements s),
              doc_totalMeasurements = length (measurements s),
              doc_averageDistance = summary_average (measurements s),
              doc_minDistance = Math_min (map m_distance (measurements s)),
              doc_maxDistance = Math_max (map m_distance (measurements s))\<rparr>) s))"

definition linear_startNewMeasurement :: "'m app \<Rightarrow> 'm app" where
  "linear_startNewMeasurement s = linear_clearMeasurements s"

definition linear_goBack :: "'m app \<Rightarrow> 'm app" where
  "linear_goBack s = s\<lparr>currentMode := None, isMeasuring := False, measurementPoints := []\<rparr>"

text \<open>The handlers the page registers (the keyboard shortcuts call the same handlers as
  the buttons).\<close>

datatype linear_event =
    L_unit unit_code
  | L_selectMode string bool
  | L_toggleMeasurement
  | L_clearMeasurements
  | L_goBack
  | L_startCalibration
  | L_exportMeasurements
  | L_startNewMeasurement
  | L_setupCanvas nat nat
  | L_click "string option" jsnum jsnum nat

fun linear_step :: "'m app \<Rightarrow> linear_event \<Rightarrow> 'm app" where
  "linear_step s (L_unit u) = s\<lparr>currentUnit := u\<rparr>"
| "linear_step s (L_selectMode md cam_ok) = linear_selectMode md cam_ok s"
| "linear_step s L_toggleMeasurement = linear_toggleMeasurement s"
| "linear_step s L_clearMeasurements = linear_clearMeasurements s"
| "linear_step s L_goBack = linear_goBack s"
| "linear_step s L_startCalibration = linear_startCalibration s"
| "linear_step s L_exportMeasurements = linear_exportMeasurements s"
| "linear_step s L_startNewMeasurement = linear_startNewMeasurement s"
| "linear_step s (L_setupCanvas w h) = setupCanvas w h s"
| "linear_step s (L_click sel x y now) = linear_handleCanvasClick sel x y now s"

definition linear_run :: "linear_event list \<Rightarrow> 'm app" where
  "linear_run es = foldl linear_step constructor es"

section \<open>Exceptions and the library's result array\<close>

text \<open>A function that can throw returns \<open>Inl s\<close> with the state at the throw, or
  \<open>Inr s\<close> when it returns. \<open>settle\<close> is the state the event loop is left with.\<close>

definition settle :: "'a + 'a \<Rightarrow> 'a" where
  "settle r = (case r of Inl s \<Rightarrow> s | Inr s \<Rightarrow> s)"

text \<open>\<open>dstPoints.data32F[i]\<close>: reading beyond the array gives \<open>undefined\<close>.\<close>

definition data32F :: "jsnum list \<Rightarrow> nat \<Rightarrow> jsnum option" where
  "data32F r i = (if i < length r then Some (r ! i) else None)"

definition flat_corners :: "corner list \<Rightarrow> jsnum list" where
  "flat_corners ps = concat (map (\<lambda>p. [c_x p, c_y p]) ps)"

text \<open>The destination rectangle of the precision calibration, flattened:
  \<open>[[0, 0], [W * scale, 0], [W * scale, H * scale], [0, H * scale]].flat()\<close>.\<close>

definition dstPoints :: "jsnum \<Rightarrow> jsnum \<Rightarrow> jsnum \<Rightarrow> jsnum list" where
  "dstPoints refWidth refHeight scale =
     [Fin 0, Fin 0,
      js_mul refWidth scale, Fin 0,
      js_mul refWidth scale, js_mul refHeight scale,
      Fin 0, js_mul refHeight scale]"

text \<open>\<open>resetMeasurementState\<close> is the same in the OpenCV and hybrid variants.\<close>

definition resetMeasurementState :: "'m app \<Rightarrow> 'm app" where
  "resetMeasurementState s = s\<lparr>measurementPoints := [], isMeasuring := False\<rparr>"

definition initializeCamera :: "bool \<Rightarrow> 'm app \<Rightarrow> 'm app" where
  "initializeCamera cam_ok s =
     (if cam_ok then emit InitCamera s
      else emit (ShowError ''Failed to access camera. Please check permissions and try again.'') s)"

section \<open>The OpenCV variant\<close>

definition opencv_referenceObjects :: "string \<Rightarrow> reference option" where
  "opencv_referenceObjects k =
     (if k = ''credit_card'' then Some (rect_ref ''Credit Card'' (856 / 10) (5398 / 100))
      else if k = ''business_card'' then Some (rect_ref ''Business Card'' 89 51)
      else if k = ''a4_paper'' then Some (rect_ref ''A4 Paper'' 210 297)
      else if k = ''letter_paper'' then Some (rect_ref ''US Letter'' 216 279)
      else if k = ''post_it'' then Some (rect_ref ''Post-it Note'' 76 76)
      else None)"

definition onOpenCvReady :: "'m app \<Rightarrow> 'm app" where
  "onOpenCvReady s = s\<lparr>isOpenCVReady := True\<rparr>"

definition opencv_resetCalibration :: "'m app \<Rightarrow> 'm app" where
  "opencv_resetCalibration s =
     s\<lparr>isCalibrated := False, calibrationData := None, calibrationPoints := [],
       perspectiveMatrix := None, currentStep := 0\<rparr>"

definition opencv_goBack :: "'m app \<Rightarrow> 'm app" where
  "opencv_goBack s =
     (let s1 = (if perspectiveMatrix s \<noteq> None
                then (emit CvDelete s)\<lparr>perspectiveMatrix := None\<rparr> else s)
      in (opencv_resetCalibration s1)
           \<lparr>currentMode := None, isMeasuring := False, measurementPoints := []\<rparr>)"

definition opencv_showBasicCalibration :: "'m app \<Rightarrow> 'm app" where
  "opencv_showBasicCalibration s =
     emit (ShowMessage ''Basic calibration not implemented in this demo. Use precision mode.'') s"

definition opencv_initializePrecisionMode :: "bool \<Rightarrow> 'm app \<Rightarrow> 'm app" where
  "opencv_initializePrecisionMode cam_ok s =
     (if \<not> isOpenCVReady s
      then opencv_goBack (emit (ShowError ''OpenCV.js is still loading. Please wait and try again.'') s)
      else emit (ShowModal ''precisionCalibrationModal'') (initializeCamera cam_ok s))"

definition opencv_initializeARMode :: "bool \<Rightarrow> 'm app \<Rightarrow> 'm app" where
  "opencv_initializeARMode cam_ok s =
     opencv_initializePrecisionMode cam_ok
       (emit (ShowMessage ''AR mode is in development. Using precision mode instead.'') s)"

definition opencv_initializeBasicMode :: "bool \<Rightarrow> 'm app \<Rightarrow> 'm app" where
  "opencv_initializeBasicMode cam_ok s = opencv_showBasicCalibration (initializeCamera cam_ok s)"

definition opencv_selectMode :: "string \<Rightarrow> bool \<Rightarrow> 'm app \<Rightarrow> 'm app" where
  "opencv_selectMode md cam_ok s =
     (let s1 = s\<lparr>currentMode := Some md\<rparr>
      in if md = ''precision'' then opencv_initializePrecisionMode cam_ok s1
         else if md = ''ar'' then opencv_initializeARMode cam_ok s1
         else if md = ''basic'' then opencv_initializeBasicMode cam_ok s1
         else s1)"

definition opencv_startPrecisionCalibration :: "string option \<Rightarrow> 'm app \<Rightarrow> 'm app" where
  "opencv_startPrecisionCalibration sel s =
     (emit (HideModal ''precisionCalibrationModal'') s)
       \<lparr>referenceObject := opencv_referenceObjects (referenceKey sel),
        calibrationPoints := [], isCalibrationMode := True, isMeasuring := True,
        currentStep := 1\<rparr>"

definition opencv_completePrecisionCalibration :: "'m cvlib \<Rightarrow> 'm app \<Rightarrow> 'm app" where
  "opencv_completePrecisionCalibration L s =
     (if length (calibrationPoints s) \<noteq> 4 \<or> \<not> isOpenCVReady s
      then emit (ShowError ''Calibration incomplete or OpenCV not ready'') s
      else
        (let failed = (\<lambda>t. opencv_resetCalibration
                         (emit (ShowError ''Calibration failed. Please try again with clearer corner points.'') t))
         in case referenceObject s of
              None \<Rightarrow> failed s
            | Some r \<Rightarrow>
               (let srcPoints = flat_corners (calibrationPoints s);
                    refWidth = ToNumber (ref_width r);
                    refHeight = ToNumber (ref_height r);
                    scale = Fin 10;
                    dst = dstPoints refWidth refHeight scale;
                    s1 = emit (CvGetPerspectiveTransform srcPoints dst)
                           (emit (CvMatFromArray dst) (emit (CvMatFromArray srcPoints) s))
                in case getPerspectiveTransform L srcPoints dst of
                     None \<Rightarrow> failed s1
                   | Some M \<Rightarrow>
                      (let pixelDistance = euclid (srcPoints ! 0) (srcPoints ! 1) (srcPoints ! 2) (srcPoints ! 3);
                           cd = \<lparr>cd_pixelsPerMM = Some (js_div pixelDistance refWidth),
                                 cd_perspectiveMatrix = Some M, cd_referenceObject = r,
                                 cd_scale = Some scale, cd_mode = None,
                                 cd_calibrationFactor = None, cd_distanceCorrection = None\<rparr>
                       in emit (ShowMessage ''Precision calibration successful!'')
                            ((emit CvDelete (emit CvDelete s1))
                               \<lparr>perspectiveMatrix := Some M, calibrationData := Some cd,
                                isCalibrated := True, isCalibrationMode := False,
                                isMeasuring := False, calibrationPoints := []\<rparr>)))))"

definition opencv_handleCalibrationClick :: "'m cvlib \<Rightarrow> jsnum \<Rightarrow> jsnum \<Rightarrow> 'm app \<Rightarrow> 'm app" where
  "opencv_handleCalibrationClick L x y s =
     (let s1 = s\<lparr>calibrationPoints :=
                   calibrationPoints s @ [\<lparr>c_x = x, c_y = y, c_step = currentStep s\<rparr>]\<rparr>
      in if currentStep s1 < 4 then s1\<lparr>currentStep := currentStep s1 + 1\<rparr>
         else opencv_completePrecisionCalibration L s1)"

definition opencv_calculateDistanceWithPerspectiveCorrection ::
  "'m cvlib \<Rightarrow> nat \<Rightarrow> 'm app \<Rightarrow> 'm app + 'm app" where
  "opencv_calculateDistanceWithPerspectiveCorrection L now s =
     (case measurementPoints s of
        p1 # p2 # rest \<Rightarrow>
          (let src = [p_x p1, p_y p1, p_x p2, p_y p2];
               s0 = emit CvNewMat (emit (CvMatFromArray src) s)
           in case perspectiveMatrix s of
                None \<Rightarrow> Inl s0
              | Some M \<Rightarrow>
          (let s1 = emit (CvPerspectiveTransform src M) s0
           in case perspectiveTransform L src M of
                None \<Rightarrow> Inl s1
              | Some r \<Rightarrow>
                 (let correctedP1 = (data32F r 0, data32F r 1);
                      correctedP2 = (data32F r 2, data32F r 3);
                      correctedDistance =
                        euclid (ToNumber (fst correctedP1)) (ToNumber (snd correctedP1))
                               (ToNumber (fst correctedP2)) (ToNumber (snd correctedP2))
                  in case calibrationData s of
                       None \<Rightarrow> Inl s1
                     | Some cd \<Rightarrow>
                        (let distanceInMM = js_div correctedDistance (ToNumber (cd_scale cd));
                             distanceInUnit = js_mul distanceInMM (factor (currentUnit s));
                             m = \<lparr>m_id = now, m_distance = distanceInMM,
                                  m_displayDistance = distanceInUnit, m_unit = currentUnit s,
                                  m_timestamp = now, m_points = measurementPoints s,
                                  m_mode = Some ''precision'', m_calibrationFactor = None,
                                  m_correctedPoints = Some [correctedP1, correctedP2],
                                  m_accuracy = Some ''high'',
                                  m_method = Some ''perspective_correction''\<rparr>
                         in Inr (emit (ShowMessage ''Distance'')
                                  (emit CvDelete (emit CvDelete
                                    (resetMeasurementState
                                      (s1\<lparr>measurements := measurements s1 @ [m]\<rparr>)))))))))
      | _ \<Rightarrow> Inl s)"

definition opencv_calculateBasicDistance :: "nat \<Rightarrow> 'm app \<Rightarrow> 'm app + 'm app" where
  "opencv_calculateBasicDistance now s =
     (case measurementPoints s of
        p1 # p2 # rest \<Rightarrow>
          (case calibrationData s of
             None \<Rightarrow> Inl s
           | Some cd \<Rightarrow>
              (let distanceInMM = js_div (pixelDistance p1 p2) (ToNumber (cd_pixelsPerMM cd));
                   distanceInUnit = js_mul distanceInMM (factor (currentUnit s));
                   m = \<lparr>m_id = now, m_distance = distanceInMM,
                        m_displayDistance = distanceInUnit, m_unit = currentUnit s,
                        m_timestamp = now, m_points = measurementPoints s,
                        m_mode = Some ''basic'', m_calibrationFactor = None,
                        m_correctedPoints = None, m_accuracy = Some ''medium'',
                        m_method = Some ''triangle_similarity''\<rparr>
               in Inr (resetMeasurementState (s\<lparr>measurements := measurements s @ [m]\<rparr>))))
      | _ \<Rightarrow> Inl s)"

definition opencv_calculatePreciseDistance :: "'m cvlib \<Rightarrow> nat \<Rightarrow> 'm app \<Rightarrow> 'm app" where
  "opencv_calculatePreciseDistance L now s =
     (if length (measurementPoints s) \<noteq> 2 \<or> \<not> isCalibrated s then s
      else
        (case (if currentMode s = Some ''precision'' \<and> perspectiveMatrix s \<noteq> None
               then opencv_calculateDistanceWithPerspectiveCorrection L now s
               else opencv_calculateBasicDistance now s) of
           Inr t \<Rightarrow> t
         | Inl t \<Rightarrow> emit (ShowError ''Distance calculation failed. Please try again.'') t))"

definition opencv_handleMeasurementClick ::
  "'m cvlib \<Rightarrow> jsnum \<Rightarrow> jsnum \<Rightarrow> nat \<Rightarrow> 'm app \<Rightarrow> 'm app" where
  "opencv_handleMeasurementClick L x y now s =
     (let s1 = s\<lparr>measurementPoints :=
                   measurementPoints s @ [\<lparr>p_x = x, p_y = y, p_timestamp = now\<rparr>]\<rparr>
      in if length (measurementPoints s1) = 2 then opencv_calculatePreciseDistance L now s1
         else s1)"

definition opencv_handleCanvasClick ::
  "'m cvlib \<Rightarrow> jsnum \<Rightarrow> jsnum \<Rightarrow> nat \<Rightarrow> 'm app \<Rightarrow> 'm app" where
  "opencv_handleCanvasClick L x y now s =
     (if \<not> isMeasuring s then s
      else if isCalibrationMode s then opencv_handleCalibrationClick L x y s
      else opencv_handleMeasurementClick L x y now s)"

definition startMeasuring :: "'m app \<Rightarrow> 'm app" where
  "startMeasuring s = s\<lparr>isMeasuring := True, measurementPoints := []\<rparr>"

definition stopMeasuring :: "'m app \<Rightarrow> 'm app" where
  "stopMeasuring s = resetMeasurementState s"

definition opencv_toggleMeasurement :: "'m app \<Rightarrow> 'm app" where
  "opencv_toggleMeasurement s =
     (if \<not> isCalibrated s then
        (if currentMode s = Some ''precision'' then emit (ShowModal ''precisionCalibrationModal'') s
         else opencv_showBasicCalibration s)
      else if isMeasuring s then stopMeasuring s
      else startMeasuring s)"

definition undoLastPoint :: "'m app \<Rightarrow> 'm app" where
  "undoLastPoint s =
     (if length (measurementPoints s) > 0
      then emit (ShowMessage ''Last point removed'')
             (s\<lparr>measurementPoints := butlast (measurementPoints s)\<rparr>)
      else s)"

definition clearMeasurements :: "'m app \<Rightarrow> 'm app" where
  "clearMeasurements s =
     emit (ShowMessage ''All measurements cleared'')
       (resetMeasurementState (s\<lparr>measurementPoints := [], measurements := []\<rparr>))"

definition opencv_entry :: "measurement \<Rightarrow> export_entry" where
  "opencv_entry m =
     \<lparr>e_id = m_id m, e_distance_mm = m_distance m, e_distance_display = m_displayDistance m,
      e_unit = m_unit m, e_timestamp = m_timestamp m, e_mode = m_mode m,
      e_points = None, e_accuracy = m_accuracy m, e_method = m_method m\<rparr>"

definition opencv_exportMeasurements :: "'m app \<Rightarrow> 'm app" where
  "opencv_exportMeasurements s =
     (if length (measurements s) = 0 then emit (ShowError ''No measurements to export'') s
      else
        emit (ShowMessage ''Measurements exported successfully'')
          (emit (Download
             \<lparr>doc_appName = ''Accurate Distance Measurement App'',
              doc_version = ''2.0 (OpenCV Enhanced)'',
              doc_isCalibrated = isCalibrated s,
              doc_measurements = map opencv_entry (measurements s),
              doc_totalMeasurements = length (measurements s),
              doc_averageDistance = summary_average (measurements s),
              doc_minDistance = Math_min (map m_distance (measurements s)),
              doc_maxDistance = Math_max (map m_distance (measurements s))\<rparr>) s))"

definition startNewMeasurement :: "'m app \<Rightarrow> 'm app" where
  "startNewMeasurement s = resetMeasurementState (s\<lparr>measurementPoints := []\<rparr>)"

definition opencv_showRecalibration :: "'m app \<Rightarrow> 'm app" where
  "opencv_showRecalibration s =
     (if currentMode s = Some ''precision''
      then emit (ShowModal ''precisionCalibrationModal'') (opencv_resetCalibration s)
      else opencv_showBasicCalibration s)"

datatype opencv_event =
    O_onOpenCvReady
  | O_unit unit_code
  | O_selectMode string bool
  | O_toggleMeasurement
  | O_clearMeasurements
  | O_undoLastPoint
  | O_goBack
  | O_startPrecisionCalibration "string option"
  | O_exportMeasurements
  | O_startNewMeasurement
  | O_showRecalibration
  | O_setupCanvas nat nat
  | O_click jsnum jsnum nat

fun opencv_step :: "'m cvlib \<Rightarrow> 'm app \<Rightarrow> opencv_event \<Rightarrow> 'm app" where
  "opencv_step L s O_onOpenCvReady = onOpenCvReady s"
| "opencv_step L s (O_unit u) = s\<lparr>currentUnit := u\<rparr>"
| "opencv_step L s (O_selectMode md cam_ok) = opencv_selectMode md cam_ok s"
| "opencv_step L s O_toggleMeasurement = opencv_toggleMeasurement s"
| "opencv_step L s O_clearMeasurements = clearMeasurements s"
| "opencv_step L s O_undoLastPoint = undoLastPoint s"
| "opencv_step L s O_goBack = opencv_goBack s"
| "opencv_step L s (O_startPrecisionCalibration sel) = opencv_startPrecisionCalibration sel s"
| "opencv_step L s O_exportMeasurements = opencv_exportMeasurements s"
| "opencv_step L s O_startNewMeasurement = startNewMeasurement s"
| "opencv_step L s O_showRecalibration = opencv_showRecalibration s"
| "opencv_step L s (O_setupCanvas w h) = setupCanvas w h s"
| "opencv_step L s (O_click x y now) = opencv_handleCanvasClick L x y now s"

definition opencv_run :: "'m cvlib \<Rightarrow> opencv_event list \<Rightarrow> 'm app" where
  "opencv_run L es = foldl (opencv_step L) constructor es"

section \<open>The hybrid variant\<close>

definition hybrid_referenceObjects :: "string \<Rightarrow> reference option" where
  "hybrid_referenceObjects k =
     (if k = ''credit_card'' then Some (rect_ref ''Credit Card'' (856 / 10) (5398 / 100))
      else if k = ''business_card'' then Some (rect_ref ''Business Card'' 89 51)
      else if k = ''a4_paper'' then Some (rect_ref ''A4 Paper'' 210 297)
      else if k = ''letter_paper'' then Some (rect_ref ''US Letter'' 216 279)
      else if k = ''post_it'' then Some (rect_ref ''Post-it Note'' 76 76)
      else if k = ''quarter'' then Some (round_ref ''US Quarter'' (2426 / 100))
      else None)"

definition onOpenCVReady :: "'m app \<Rightarrow> 'm app" where
  "onOpenCVReady s = s\<lparr>isOpenCVReady := True\<rparr>"

definition onOpenCVFailed :: "'m app \<Rightarrow> 'm app" where
  "onOpenCVFailed s = s\<lparr>openCVFailed := True\<rparr>"

text \<open>The timer of \<open>startLoadingSequence\<close>.\<close>

definition loadingTimeout :: "'m app \<Rightarrow> 'm app" where
  "loadingTimeout s = (if \<not> isOpenCVReady s \<and> \<not> openCVFailed s then onOpenCVFailed s else s)"

definition hybrid_initializePrecisionMode :: "bool \<Rightarrow> 'm app \<Rightarrow> 'm app" where
  "hybrid_initializePrecisionMode cam_ok s =
     emit (ShowModal ''precisionCalibrationModal'') (initializeCamera cam_ok s)"

definition hybrid_initializeBasicMode :: "bool \<Rightarrow> 'm app \<Rightarrow> 'm app" where
  "hybrid_initializeBasicMode cam_ok s =
     emit (ShowModal ''basicCalibrationModal'') (initializeCamera cam_ok s)"

definition hybrid_selectMode :: "string \<Rightarrow> bool \<Rightarrow> 'm app \<Rightarrow> 'm app" where
  "hybrid_selectMode md cam_ok s =
     (let s1 = s\<lparr>currentMode := Some md\<rparr>
      in if md = ''precision'' then
           (if \<not> isOpenCVReady s1
            then hybrid_initializeBasicMode cam_ok
                   (emit (ShowMessage ''OpenCV.js not available. Using enhanced basic mode instead.'') s1)
            else hybrid_initializePrecisionMode cam_ok s1)
         else if md = ''ar'' then
           hybrid_initializeBasicMode cam_ok
             (emit (ShowMessage ''AR mode in development. Using best available mode.'') s1)
         else if md = ''basic'' then hybrid_initializeBasicMode cam_ok s1
         else s1)"

definition hybrid_startPrecisionCalibration :: "string option \<Rightarrow> 'm app \<Rightarrow> 'm app" where
  "hybrid_startPrecisionCalibration sel s =
     (emit (HideModal ''precisionCalibrationModal'') s)
       \<lparr>referenceObject := hybrid_referenceObjects (referenceKey sel),
        calibrationPoints := [], isCalibrationMode := True, isMeasuring := True,
        currentStep := 1\<rparr>"

definition hybrid_startBasicCalibration :: "string option \<Rightarrow> 'm app \<Rightarrow> 'm app" where
  "hybrid_startBasicCalibration sel s =
     (emit (HideModal ''basicCalibrationModal'') s)
       \<lparr>referenceObject := hybrid_referenceObjects (referenceKey sel),
        calibrationPoints := [], isCalibrationMode := True, isMeasuring := True\<rparr>"

definition completeCalibration :: "'m app \<Rightarrow> 'm app" where
  "completeCalibration s =
     emit (ShowMessage ''Calibration successful!'')
       (s\<lparr>isCalibrated := True, isCalibrationMode := False, isMeasuring := False,
          calibrationPoints := []\<rparr>)"

text \<open>The factor \<open>(1 + distanceRatio * 0.1)\<close> that \<open>completeBasicCalibration\<close> multiplies
  the scale with, and \<open>distanceRatio\<close> itself.\<close>

definition distanceRatio :: "nat \<Rightarrow> nat \<Rightarrow> corner \<Rightarrow> corner \<Rightarrow> jsnum" where
  "distanceRatio w h p1 p2 =
     (let avgDistance =
            js_div (Math_sqrt (js_add (js_add (js_add (js_mul (c_x p1) (c_x p1))
                                                      (js_mul (c_y p1) (c_y p1)))
                                              (js_mul (c_x p2) (c_x p2)))
                                      (js_mul (c_y p2) (c_y p2))))
                   (Fin 2);
          canvasCenter =
            js_div (Math_sqrt (js_add (js_mul (Fin (real w)) (Fin (real w)))
                                      (js_mul (Fin (real h)) (Fin (real h)))))
                   (Fin 2)
      in js_div avgDistance canvasCenter)"

definition calibrationCorrection :: "nat \<Rightarrow> nat \<Rightarrow> corner \<Rightarrow> corner \<Rightarrow> jsnum" where
  "calibrationCorrection w h p1 p2 =
     js_add (Fin 1) (js_mul (distanceRatio w h p1 p2) (Fin (1 / 10)))"

definition completeBasicCalibration :: "'m app \<Rightarrow> 'm app + 'm app" where
  "completeBasicCalibration s =
     (case calibrationPoints s of
        p1 # p2 # rest \<Rightarrow>
          (case referenceObject s of
             None \<Rightarrow> Inl s
           | Some r \<Rightarrow>
              (let pixelDistance = euclid (c_x p1) (c_y p1) (c_x p2) (c_y p2);
                   realSize = js_or (ref_width r) (ref_diameter r);
                   calibrationFactor0 = js_div (ToNumber realSize) pixelDistance;
                   calibrationFactor1 =
                     js_mul calibrationFactor0
                       (calibrationCorrection (canvasWidth s) (canvasHeight s) p1 p2);
                   cd = \<lparr>cd_pixelsPerMM = None, cd_perspectiveMatrix = None,
                         cd_referenceObject = r, cd_scale = None,
                         cd_mode = Some ''enhanced_basic'',
                         cd_calibrationFactor = Some calibrationFactor1,
                         cd_distanceCorrection =
                           Some (distanceRatio (canvasWidth s) (canvasHeight s) p1 p2)\<rparr>
               in Inr (completeCalibration (s\<lparr>calibrationData := Some cd\<rparr>))))
      | _ \<Rightarrow> Inl s)"

definition hybrid_completePrecisionCalibration :: "'m cvlib \<Rightarrow> 'm app \<Rightarrow> 'm app + 'm app" where
  "hybrid_completePrecisionCalibration L s =
     (if length (calibrationPoints s) \<noteq> 4 \<or> \<not> isOpenCVReady s
      then Inr (emit (ShowError ''Precision calibration requires 4 corners and OpenCV'') s)
      else
        (let failed = (\<lambda>t. completeBasicCalibration
                         (emit (ShowError ''Precision calibration failed. Using enhanced basic mode.'') t))
         in case referenceObject s of
              None \<Rightarrow> failed s
            | Some r \<Rightarrow>
               (let srcPoints = flat_corners (calibrationPoints s);
                    refWidth = ToNumber (ref_width r);
                    refHeight = ToNumber (ref_height r);
                    scale = Fin 10;
                    dst = dstPoints refWidth refHeight scale;
                    s1 = emit (CvGetPerspectiveTransform srcPoints dst)
                           (emit (CvMatFromArray dst) (emit (CvMatFromArray srcPoints) s))
                in case getPerspectiveTransform L srcPoints dst of
                     None \<Rightarrow> failed s1
                   | Some M \<Rightarrow>
                      (let cd = \<lparr>cd_pixelsPerMM = None, cd_perspectiveMatrix = Some M,
                                 cd_referenceObject = r, cd_scale = Some scale,
                                 cd_mode = Some ''precision'', cd_calibrationFactor = None,
                                 cd_distanceCorrection = None\<rparr>
                       in Inr (completeCalibration
                                ((emit CvDelete (emit CvDelete s1))
                                   \<lparr>perspectiveMatrix := Some M, calibrationData := Some cd\<rparr>))))))"

text \<open>\<open>completePrecisionCalibration\<close> is an async function called without \<open>await\<close>: what
  it throws rejects its promise and does not reach the caller.\<close>

definition handlePrecisionCalibrationClick :: "'m cvlib \<Rightarrow> 'm app \<Rightarrow> 'm app" where
  "handlePrecisionCalibrationClick L s =
     (if currentStep s < 4 then s\<lparr>currentStep := currentStep s + 1\<rparr>
      else settle (hybrid_completePrecisionCalibration L s))"

definition handleBasicCalibrationClick :: "'m app \<Rightarrow> 'm app + 'm app" where
  "handleBasicCalibrationClick s =
     (if length (calibrationPoints s) = 2 then completeBasicCalibration s else Inr s)"

definition hybrid_handleCalibrationClick :: "'m cvlib \<Rightarrow> jsnum \<Rightarrow> jsnum \<Rightarrow> 'm app \<Rightarrow> 'm app" where
  "hybrid_handleCalibrationClick L x y s =
     (let s1 = s\<lparr>calibrationPoints :=
                   calibrationPoints s @ [\<lparr>c_x = x, c_y = y, c_step = currentStep s\<rparr>]\<rparr>
      in if currentMode s1 = Some ''precision'' \<and> isOpenCVReady s1
         then handlePrecisionCalibrationClick L s1
         else settle (handleBasicCalibrationClick s1))"

definition storeMeasurement ::
  "nat \<Rightarrow> jsnum \<Rightarrow> jsnum \<Rightarrow> string \<Rightarrow> string \<Rightarrow> 'm app \<Rightarrow> 'm app" where
  "storeMeasurement now distanceInMM distanceInUnit md accuracy s =
     (let m = \<lparr>m_id = now, m_distance = distanceInMM, m_displayDistance = distanceInUnit,
               m_unit = currentUnit s, m_timestamp = now, m_points = measurementPoints s,
               m_mode = Some md, m_calibrationFactor = None, m_correctedPoints = None,
               m_accuracy = Some accuracy, m_method = None\<rparr>
      in emit (ShowMessage ''Distance'')
           (resetMeasurementState (s\<lparr>measurements := measurements s @ [m]\<rparr>)))"

definition hybrid_calculatePreciseDistance :: "'m cvlib \<Rightarrow> nat \<Rightarrow> 'm app \<Rightarrow> 'm app + 'm app" where
  "hybrid_calculatePreciseDistance L now s =
     (case measurementPoints s of
        p1 # p2 # rest \<Rightarrow>
          (let src = [p_x p1, p_y p1, p_x p2, p_y p2];
               s0 = emit CvNewMat (emit (CvMatFromArray src) s)
           in case perspectiveMatrix s of
                None \<Rightarrow> Inl s0
              | Some M \<Rightarrow>
          (let s1 = emit (CvPerspectiveTransform src M) s0
           in case perspectiveTransform L src M of
                None \<Rightarrow> Inl s1
              | Some r \<Rightarrow>
                 (let correctedDistance =
                        euclid (ToNumber (data32F r 0)) (ToNumber (data32F r 1))
                               (ToNumber (data32F r 2)) (ToNumber (data32F r 3))
                  in case calibrationData s of
                       None \<Rightarrow> Inl s1
                     | Some cd \<Rightarrow>
                        (let distanceInMM = js_div correctedDistance (ToNumber (cd_scale cd));
                             distanceInUnit = js_mul distanceInMM (factor (currentUnit s))
                         in Inr (emit CvDelete (emit CvDelete
                                  (storeMeasurement now distanceInMM distanceInUnit
                                     ''precision'' ''high'' s1)))))))
      | _ \<Rightarrow> Inl s)"

text \<open>The factor \<open>1 + (distanceFromCenter / maxDistance) * 0.15\<close> of
  \<open>calculateEnhancedBasicDistance\<close>.\<close>

definition correction :: "nat \<Rightarrow> nat \<Rightarrow> point \<Rightarrow> point \<Rightarrow> jsnum" where
  "correction w h p1 p2 =
     (let centerX = js_div (Fin (real w)) (Fin 2);
          centerY = js_div (Fin (real h)) (Fin 2);
          avgX = js_div (js_add (p_x p1) (p_x p2)) (Fin 2);
          avgY = js_div (js_add (p_y p1) (p_y p2)) (Fin 2);
          distanceFromCenter =
            Math_sqrt (js_add (Math_pow (js_sub avgX centerX) 2) (Math_pow (js_sub avgY centerY) 2));
          maxDistance = Math_sqrt (js_add (js_mul centerX centerX) (js_mul centerY centerY))
      in js_add (Fin 1) (js_mul (js_div distanceFromCenter maxDistance) (Fin (15 / 100))))"

definition calculateEnhancedBasicDistance :: "nat \<Rightarrow> 'm app \<Rightarrow> 'm app + 'm app" where
  "calculateEnhancedBasicDistance now s =
     (case measurementPoints s of
        p1 # p2 # rest \<Rightarrow>
          (case calibrationData s of
             None \<Rightarrow> Inl s
           | Some cd \<Rightarrow>
              (let distanceInMM0 = js_mul (pixelDistance p1 p2) (ToNumber (cd_calibrationFactor cd));
                   distanceInMM =
                     (if (case cd_distanceCorrection cd of None \<Rightarrow> False | Some d \<Rightarrow> truthy d)
                      then js_mul distanceInMM0 (correction (canvasWidth s) (canvasHeight s) p1 p2)
                      else distanceInMM0);
                   distanceInUnit = js_mul distanceInMM (factor (currentUnit s))
               in Inr (storeMeasurement now distanceInMM distanceInUnit
                         ''enhanced_basic'' ''medium'' s)))
      | _ \<Rightarrow> Inl s)"

definition hybrid_calculateDistance :: "'m cvlib \<Rightarrow> nat \<Rightarrow> 'm app \<Rightarrow> 'm app" where
  "hybrid_calculateDistance L now s =
     (if length (measurementPoints s) \<noteq> 2 \<or> \<not> isCalibrated s then s
      else
        (case (case calibrationData s of
                 None \<Rightarrow> Inl s
               | Some cd \<Rightarrow>
                   if cd_mode cd = Some ''precision'' \<and> perspectiveMatrix s \<noteq> None
                   then hybrid_calculatePreciseDistance L now s
                   else calculateEnhancedBasicDistance now s) of
           Inr t \<Rightarrow> t
         | Inl t \<Rightarrow> emit (ShowError ''Distance calculation failed. Please try again.'') t))"

definition hybrid_handleMeasurementClick ::
  "'m cvlib \<Rightarrow> jsnum \<Rightarrow> jsnum \<Rightarrow> nat \<Rightarrow> 'm app \<Rightarrow> 'm app" where
  "hybrid_handleMeasurementClick L x y now s =
     (let s1 = s\<lparr>measurementPoints :=
                   measurementPoints s @ [\<lparr>p_x = x, p_y = y, p_timestamp = now\<rparr>]\<rparr>
      in if length (measurementPoints s1) = 2 then hybrid_calculateDistance L now s1
         else s1)"

definition hybrid_handleCanvasClick ::
  "'m cvlib \<Rightarrow> jsnum \<Rightarrow> jsnum \<Rightarrow> nat \<Rightarrow> 'm app \<Rightarrow> 'm app" where
  "hybrid_handleCanvasClick L x y now s =
     (if \<not> isMeasuring s then s
      else if isCalibrationMode s then hybrid_handleCalibrationClick L x y s
      else hybrid_handleMeasurementClick L x y now s)"

definition hybrid_toggleMeasurement :: "'m app \<Rightarrow> 'm app" where
  "hybrid_toggleMeasurement s =
     (if \<not> isCalibrated s then
        (if currentMode s = Some ''precision'' \<and> isOpenCVReady s
         then emit (ShowModal ''precisionCalibrationModal'') s
         else emit (ShowModal ''basicCalibrationModal'') s)
      else if isMeasuring s then stopMeasuring s
      else startMeasuring s)"

definition hybrid_entry :: "measurement \<Rightarrow> export_entry" where
  "hybrid_entry m =
     \<lparr>e_id = m_id m, e_distance_mm = m_distance m, e_distance_display = m_displayDistance m,
      e_unit = m_unit m, e_timestamp = m_timestamp m, e_mode = m_mode m,
      e_points = None, e_accuracy = m_accuracy m, e_method = None\<rparr>"

definition hybrid_exportMeasurements :: "'m app \<Rightarrow> 'm app" where
  "hybrid_exportMeasurements s =
     (if length (measurements s) = 0 then emit (ShowError ''No measurements to export'') s
      else
        emit (ShowMessage ''Measurements exported successfully'')
          (emit (Download
             \<lparr>doc_appName = ''Enhanced Distance Measurement App'',
              doc_version = ''2.2 (Fixed)'',
              doc_isCalibrated = isCalibrated s,
              doc_measurements = map hybrid_entry (measurements s),
              doc_totalMeasurements = length (measurements s),
              doc_averageDistance = summary_average (measurements s),
              doc_minDistance = Math_min (map m_distance (measurements s)),
              doc_maxDistance = Math_max (map m_distance (measurements s))\<rparr>) s))"

definition hybrid_resetCalibration :: "'m app \<Rightarrow> 'm app" where
  "hybrid_resetCalibration s =
     (let s1 = s\<lparr>isCalibrated := False, calibrationData := None, calibrationPoints := []\<rparr>;
          s2 = (if perspectiveMatrix s1 \<noteq> None
                then (emit CvDelete s1)\<lparr>perspectiveMatrix := None\<rparr> else s1)
      in s2\<lparr>currentStep := 0\<rparr>)"

definition hybrid_showRecalibration :: "'m app \<Rightarrow> 'm app" where
  "hybrid_showRecalibration s =
     (if currentMode s = Some ''precision'' \<and> isOpenCVReady s
      then emit (ShowModal ''precisionCalibrationModal'') (hybrid_resetCalibration s)
      else emit (ShowModal ''basicCalibrationModal'') (hybrid_resetCalibration s))"

definition hybrid_goBack :: "'m app \<Rightarrow> 'm app" where
  "hybrid_goBack s =
     (let s1 = (if perspectiveMatrix s \<noteq> None
                then (emit CvDelete s)\<lparr>perspectiveMatrix := None\<rparr> else s)
      in (hybrid_resetCalibration s1)
           \<lparr>currentMode := None, isMeasuring := False, measurementPoints := []\<rparr>)"

datatype hybrid_event =
    H_onOpenCVReady
  | H_onOpenCVFailed
  | H_loadingTimeout
  | H_unit unit_code
  | H_selectMode string bool
  | H_toggleMeasurement
  | H_clearMeasurements
  | H_undoLastPoint
  | H_goBack
  | H_startPrecisionCalibration "string option"
  | H_startBasicCalibration "string option"
  | H_exportMeasurements
  | H_startNewMeasurement
  | H_showRecalibration
  | H_setupCanvas nat nat
  | H_click jsnum jsnum nat

fun hybrid_step :: "'m cvlib \<Rightarrow> 'm app \<Rightarrow> hybrid_event \<Rightarrow> 'm app" where
  "hybrid_step L s H_onOpenCVReady = onOpenCVReady s"
| "hybrid_step L s H_onOpenCVFailed = onOpenCVFailed s"
| "hybrid_step L s H_loadingTimeout = loadingTimeout s"
| "hybrid_step L s (H_unit u) = s\<lparr>currentUnit := u\<rparr>"
| "hybrid_step L s (H_selectMode md cam_ok) = hybrid_selectMode md cam_ok s"
| "hybrid_step L s H_toggleMeasurement = hybrid_toggleMeasurement s"
| "hybrid_step L s H_clearMeasurements = clearMeasurements s"
| "hybrid_step L s H_undoLastPoint = undoLastPoint s"
| "hybrid_step L s H_goBack = hybrid_goBack s"
| "hybrid_step L s (H_startPrecisionCalibration sel) = hybrid_startPrecisionCalibration sel s"
| "hybrid_step L s (H_startBasicCalibration sel) = hybrid_startBasicCalibration sel s"
| "hybrid_step L s H_exportMeasurements = hybrid_exportMeasurements s"
| "hybrid_step L s H_startNewMeasurement = startNewMeasurement s"
| "hybrid_step L s H_showRecalibration = hybrid_showRecalibration s"
| "hybrid_step L s (H_setupCanvas w h) = setupCanvas w h s"
| "hybrid_step L s (H_click x y now) = hybrid_handleCanvasClick L x y now s"

definition hybrid_run :: "'m cvlib \<Rightarrow> hybrid_event list \<Rightarrow> 'm app" where
  "hybrid_run L es = foldl (hybrid_step L) constructor es"

section \<open>Definitions used to state the properties\<close>

text \<open>The real-world size of a reference object in the specification's words: its
  width, or its diameter when it has no width.\<close>

definition spec_realSize :: "reference \<Rightarrow> jsnum option" where
  "spec_realSize r = (case ref_width r of Some w \<Rightarrow> Some w | None \<Rightarrow> ref_diameter r)"

text \<open>A library instance to run the handlers on: the solve returns a handle and the
  point transform returns its input.\<close>

definition sample_cv :: "unit cvlib" where
  "sample_cv = \<lparr>getPerspectiveTransform = (\<lambda>src dst. Some ()),
                 perspectiveTransform = (\<lambda>src M. Some src)\<rparr>"

text \<open>States of the hybrid variant that are not calibrating and whose calibration data,
  if any, are of the enhanced basic mode with a scale factor that is not finite; and the
  events that start a calibration.\<close>

definition degenerate :: "'m app \<Rightarrow> bool" where
  "degenerate s =
     (\<not> isCalibrationMode s \<and>
      (case calibrationData s of
         None \<Rightarrow> True
       | Some cd \<Rightarrow> cd_mode cd \<noteq> Some ''precision'' \<and>
                    \<not> is_finite (ToNumber (cd_calibrationFactor cd))))"

definition starts_calibration :: "hybrid_event \<Rightarrow> bool" where
  "starts_calibration e =
     (case e of H_startPrecisionCalibration _ \<Rightarrow> True | H_startBasicCalibration _ \<Rightarrow> True
      | _ \<Rightarrow> False)"

text \<open>What holds in every state the OpenCV variant reaches: the calibrated flag, the
  calibration data and the transform are set and cleared together, and the scale of
  the calibration data is 10.\<close>

definition opencv_inv :: "'m app \<Rightarrow> bool" where
  "opencv_inv s =
     ((isCalibrated s = (calibrationData s \<noteq> None)) \<and>
      (isCalibrated s = (perspectiveMatrix s \<noteq> None)) \<and>
      (case calibrationData s of None \<Rightarrow> True | Some cd \<Rightarrow> cd_scale cd = Some (Fin 10)))"

text \<open>What holds in every state the hybrid variant reaches: without the library there
  is no transform, and calibration data of the precision mode have the scale 10.\<close>

definition hybrid_inv :: "'m app \<Rightarrow> bool" where
  "hybrid_inv s =
     ((isOpenCVReady s \<or> perspectiveMatrix s = None) \<and>
      (case calibrationData s of
         None \<Rightarrow> True
       | Some cd \<Rightarrow> cd_mode cd \<noteq> Some ''precision'' \<or> cd_scale cd = Some (Fin 10)))"

text \<open>The transform a library call returned, among all the transforms there are.\<close>

definition from_library :: "'m cvlib \<Rightarrow> 'm option \<Rightarrow> bool" where
  "from_library L M = (\<exists>src dst. getPerspectiveTransform L src dst = M)"

definition is_solve :: "'m effect \<Rightarrow> bool" where
  "is_solve e = (case e of CvGetPerspectiveTransform _ _ \<Rightarrow> True | _ \<Rightarrow> False)"




definition hybrid_label :: "measurement \<Rightarrow> bool" where
  "hybrid_label m =
     ((m_mode m = Some ''precision'' \<and> m_accuracy m = Some ''high'') \<or>
      (m_mode m = Some ''enhanced_basic'' \<and> m_accuracy m = Some ''medium''))"




section \<open>Arithmetic facts\<close>

lemma Math_pow_2: "Math_pow a 2 = js_mul a a"
proof -
  have "js_mul a (Fin 1) = a" by (cases a) auto
  then show ?thesis by (simp add: numeral_2_eq_2)
qed

lemma not_finite_mul_right: "\<not> is_finite f \<Longrightarrow> \<not> is_finite (js_mul d f)"
  by (cases d; cases f) (auto simp: is_finite_def)

lemma not_finite_mul_left: "\<not> is_finite f \<Longrightarrow> \<not> is_finite (js_mul f d)"
  by (cases d; cases f) (auto simp: is_finite_def)

lemma euclid_same: "euclid (Fin a) (Fin b) (Fin a) (Fin b) = Fin 0"
  by (simp add: euclid_def Math_pow_2 js_sub_def)

lemma div_zero_not_finite: "js_lt (Fin 0) a \<Longrightarrow> js_div a (Fin 0) = PInf"
  by (cases a) auto

section \<open>The two-point linear variant: scale factor and measurements\<close>

lemmas linear_defs = linear_selectMode_def linear_initializeARMode_def
  linear_initializeCameraMode_def linear_startCalibration_def linear_completeCalibration_def
  linear_calculateDistance_def linear_handleCanvasClick_def linear_startMeasuring_def
  linear_stopMeasuring_def linear_toggleMeasurement_def linear_clearMeasurements_def
  linear_exportMeasurements_def linear_startNewMeasurement_def linear_goBack_def
  setupCanvas_def emit_def

lemma linear_step_mode:
  "\<not> isCalibrationMode s \<Longrightarrow> e \<noteq> L_startCalibration \<Longrightarrow>
     \<not> isCalibrationMode (linear_step s e) \<and>
     calibrationFactor (linear_step s e) = calibrationFactor s"
  by (cases e) (auto simp: linear_defs Let_def split: list.splits option.splits)

lemma linear_step_measurements:
  "m \<in> set (measurements (linear_step s e)) \<Longrightarrow>
     m \<in> set (measurements s) \<or>
     (\<exists>p1 p2. m_points m = [p1, p2] \<and>
        m_distance m = js_mul (pixelDistance p1 p2) (calibrationFactor s))"
  by (cases e) (auto simp: linear_defs Let_def split: list.splits option.splits if_splits)

text \<open>Until a calibration is started again, the scale factor stays and every stored
  measurement that is new was computed with it.\<close>

lemma linear_run_measurements:
  "\<not> isCalibrationMode s \<Longrightarrow> L_startCalibration \<notin> set es \<Longrightarrow>
   calibrationFactor (foldl linear_step s es) = calibrationFactor s \<and>
   (\<forall>m \<in> set (measurements (foldl linear_step s es)).
      m \<in> set (measurements s) \<or>
      (\<exists>p1 p2. m_points m = [p1, p2] \<and>
         m_distance m = js_mul (pixelDistance p1 p2) (calibrationFactor s)))"
proof (induction es arbitrary: s)
  case Nil
  then show ?case by simp
next
  case (Cons e es)
  have e: "e \<noteq> L_startCalibration" and es: "L_startCalibration \<notin> set es"
    using Cons.prems(2) by auto
  from linear_step_mode[OF Cons.prems(1) e]
  have a: "\<not> isCalibrationMode (linear_step s e)"
    and b: "calibrationFactor (linear_step s e) = calibrationFactor s" by auto
  from Cons.IH[OF a es] b linear_step_measurements[of _ s e]
  show ?case by simp blast
qed

lemma linear_table_realSize:
  "linear_referenceObjects k = Some r \<Longrightarrow>
     js_or (ref_width r) (ref_diameter r) = spec_realSize r \<and>
     js_lt (Fin 0) (ToNumber (spec_realSize r))"
  by (auto simp: linear_referenceObjects_def rect_ref_def round_ref_def js_or_def truthy_def
      spec_realSize_def ToNumber_def split: if_splits)

lemma linear_calibration_click:
  assumes "linear_referenceObjects (referenceKey sel) = Some r"
    and "isMeasuring s" "isCalibrationMode s" "measurementPoints s = [p1]"
  shows "linear_handleCanvasClick sel x y now s =
     emit (ShowMessage ''Calibration successful! You can now measure objects accurately.'')
       (s\<lparr>calibrationFactor :=
            js_div (ToNumber (js_or (ref_width r) (ref_diameter r)))
                   (pixelDistance p1 \<lparr>p_x = x, p_y = y, p_timestamp = now\<rparr>),
          isCalibrated := True, isCalibrationMode := False,
          isMeasuring := False, measurementPoints := []\<rparr>)"
  using assms
  by (simp add: linear_handleCanvasClick_def linear_completeCalibration_def Let_def emit_def)



section \<open>Measuring without calibration\<close>

lemma opencv_uncalibrated_click:
  "\<not> isCalibrated s \<Longrightarrow>
     measurements (opencv_handleMeasurementClick L x y now s) = measurements s \<and>
     \<not> isCalibrated (opencv_handleMeasurementClick L x y now s)"
  by (simp add: opencv_calculatePreciseDistance_def opencv_handleMeasurementClick_def Let_def)

lemma hybrid_uncalibrated_click:
  "\<not> isCalibrated s \<Longrightarrow>
     measurements (hybrid_handleMeasurementClick L x y now s) = measurements s \<and>
     \<not> isCalibrated (hybrid_handleMeasurementClick L x y now s)"
  by (simp add: hybrid_calculateDistance_def hybrid_handleMeasurementClick_def Let_def)

text \<open>
  C1 (as amended). In the OpenCV and hybrid variants, in every state whose calibrated
  flag is false, the distance-calculation step leaves the list of measurements
  unchanged, and so does the handling of any pair of measurement clicks. In the
  two-point linear variant the distance-calculation step does not read the flag: from
  two pending points it stores a measurement computed with the current scale factor
  (1 before any calibration); there the gate is \<open>toggleMeasurement\<close>, which in camera mode
  shows the calibration modal instead of starting to measure while the flag is false.
\<close>

theorem uncalibrated_no_measurement:
  "(\<not> isCalibrated s \<longrightarrow>
      measurements (opencv_calculatePreciseDistance L now s) = measurements s \<and>
      measurements (opencv_handleMeasurementClick L x2 y2 now2
                      (opencv_handleMeasurementClick L x1 y1 now1 s)) = measurements s \<and>
      measurements (hybrid_calculateDistance L now s) = measurements s \<and>
      measurements (hybrid_handleMeasurementClick L x2 y2 now2
                      (hybrid_handleMeasurementClick L x1 y1 now1 s)) = measurements s)
   \<and> (\<not> isCalibrated s \<and> currentMode s = Some ''camera'' \<longrightarrow>
        linear_toggleMeasurement s = emit (ShowModal ''calibrationModal'') s)
   \<and> (measurementPoints s = [p1, p2] \<longrightarrow>
        length (measurements (linear_calculateDistance now s)) = length (measurements s) + 1 \<and>
        m_distance (last (measurements (linear_calculateDistance now s))) =
          js_mul (pixelDistance p1 p2) (calibrationFactor s))"
proof -
  have a: "\<not> isCalibrated s \<Longrightarrow>
      measurements (opencv_handleMeasurementClick L x2 y2 now2
                      (opencv_handleMeasurementClick L x1 y1 now1 s)) = measurements s"
    using opencv_uncalibrated_click[of s L x1 y1 now1]
          opencv_uncalibrated_click[of "opencv_handleMeasurementClick L x1 y1 now1 s" L x2 y2 now2]
    by simp
  have b: "\<not> isCalibrated s \<Longrightarrow>
      measurements (hybrid_handleMeasurementClick L x2 y2 now2
                      (hybrid_handleMeasurementClick L x1 y1 now1 s)) = measurements s"
    using hybrid_uncalibrated_click[of s L x1 y1 now1]
          hybrid_uncalibrated_click[of "hybrid_handleMeasurementClick L x1 y1 now1 s" L x2 y2 now2]
    by simp
  have c: "\<not> isCalibrated s \<Longrightarrow>
      measurements (opencv_calculatePreciseDistance L now s) = measurements s"
    by (simp add: opencv_calculatePreciseDistance_def)
  have d: "\<not> isCalibrated s \<Longrightarrow>
      measurements (hybrid_calculateDistance L now s) = measurements s"
    by (simp add: hybrid_calculateDistance_def)
  have e: "\<not> isCalibrated s \<and> currentMode s = Some ''camera'' \<Longrightarrow>
        linear_toggleMeasurement s = emit (ShowModal ''calibrationModal'') s"
    by (simp add: linear_toggleMeasurement_def)
  have f: "measurementPoints s = [p1, p2] \<Longrightarrow>
        length (measurements (linear_calculateDistance now s)) = length (measurements s) + 1 \<and>
        m_distance (last (measurements (linear_calculateDistance now s))) =
          js_mul (pixelDistance p1 p2) (calibrationFactor s)"
    by (simp add: linear_calculateDistance_def Let_def emit_def)
  from a b c d e f show ?thesis by blast
qed

theorem uncalibrated_no_measurement_witness:
  "\<not> isCalibrated ((constructor :: unit app)\<lparr>isMeasuring := True\<rparr>) \<and>
   measurements (opencv_handleMeasurementClick sample_cv (Fin 3) (Fin 4) 2
      (opencv_handleMeasurementClick sample_cv (Fin 0) (Fin 0) 1
         ((constructor :: unit app)\<lparr>isMeasuring := True\<rparr>))) = [] \<and>
   measurements (hybrid_handleMeasurementClick sample_cv (Fin 3) (Fin 4) 2
      (hybrid_handleMeasurementClick sample_cv (Fin 0) (Fin 0) 1
         ((constructor :: unit app)\<lparr>isMeasuring := True\<rparr>))) = []"
  using uncalibrated_no_measurement[of "(constructor :: unit app)\<lparr>isMeasuring := True\<rparr>"
      sample_cv 2 "Fin 3" "Fin 4" 2 "Fin 0" "Fin 0" 1]
  by (simp add: constructor_def)

text \<open>
  C1 as stated fails in the two-point linear variant: after choosing the AR mode,
  starting to measure and clicking once, the application is not calibrated, and the
  second click stores a measurement of 5 mm.
\<close>

theorem uncalibrated_measurement_counterexample:
  "\<not> isCalibrated (linear_run
       [L_selectMode ''ar'' True, L_toggleMeasurement, L_click None (Fin 0) (Fin 0) 1] :: unit app)
   \<and> measurements (linear_run
       [L_selectMode ''ar'' True, L_toggleMeasurement, L_click None (Fin 0) (Fin 0) 1] :: unit app) = []
   \<and> map m_distance (measurements (linear_handleCanvasClick None (Fin 3) (Fin 4) 2
        (linear_run
          [L_selectMode ''ar'' True, L_toggleMeasurement, L_click None (Fin 0) (Fin 0) 1] :: unit app)))
      = [Fin 5]"
  by (simp add: linear_run_def linear_defs constructor_def Let_def pixelDistance_def euclid_def
      Math_pow_2 js_sub_def)

section \<open>Calibrating on a single pixel\<close>

lemmas hybrid_defs = onOpenCVReady_def onOpenCVFailed_def loadingTimeout_def
  hybrid_initializePrecisionMode_def hybrid_initializeBasicMode_def hybrid_selectMode_def
  hybrid_startPrecisionCalibration_def hybrid_startBasicCalibration_def completeCalibration_def
  completeBasicCalibration_def hybrid_completePrecisionCalibration_def
  handlePrecisionCalibrationClick_def handleBasicCalibrationClick_def
  hybrid_handleCalibrationClick_def storeMeasurement_def hybrid_calculatePreciseDistance_def
  calculateEnhancedBasicDistance_def hybrid_calculateDistance_def
  hybrid_handleMeasurementClick_def hybrid_handleCanvasClick_def hybrid_toggleMeasurement_def
  hybrid_exportMeasurements_def hybrid_resetCalibration_def hybrid_showRecalibration_def
  hybrid_goBack_def startMeasuring_def stopMeasuring_def undoLastPoint_def
  clearMeasurements_def startNewMeasurement_def resetMeasurementState_def
  initializeCamera_def setupCanvas_def settle_def emit_def

lemma hybrid_degenerate_click:
  "degenerate s \<Longrightarrow>
     degenerate (hybrid_handleCanvasClick L x y now s) \<and>
     (\<forall>m \<in> set (measurements (hybrid_handleCanvasClick L x y now s)).
        m \<in> set (measurements s) \<or> \<not> is_finite (m_distance m))"
  by (auto simp: degenerate_def hybrid_handleCanvasClick_def hybrid_handleMeasurementClick_def
      hybrid_calculateDistance_def calculateEnhancedBasicDistance_def storeMeasurement_def
      resetMeasurementState_def emit_def Let_def not_finite_mul_left not_finite_mul_right
      split: option.splits list.splits)

lemma hybrid_degenerate_step:
  assumes "degenerate s" "\<not> starts_calibration e"
  shows "degenerate (hybrid_step L s e) \<and>
     (\<forall>m \<in> set (measurements (hybrid_step L s e)).
        m \<in> set (measurements s) \<or> \<not> is_finite (m_distance m))"
proof (cases e)
  case (H_click x y now)
  then show ?thesis using hybrid_degenerate_click[OF assms(1), of L x y now] by simp
qed (use assms in \<open>auto simp: degenerate_def starts_calibration_def onOpenCVReady_def
      onOpenCVFailed_def loadingTimeout_def hybrid_selectMode_def
      hybrid_initializePrecisionMode_def hybrid_initializeBasicMode_def initializeCamera_def
      hybrid_toggleMeasurement_def clearMeasurements_def undoLastPoint_def hybrid_goBack_def
      hybrid_resetCalibration_def hybrid_exportMeasurements_def startNewMeasurement_def
      hybrid_showRecalibration_def setupCanvas_def startMeasuring_def stopMeasuring_def
      resetMeasurementState_def emit_def Let_def\<close>)

lemma hybrid_degenerate_run:
  "degenerate s \<Longrightarrow> \<forall>e \<in> set es. \<not> starts_calibration e \<Longrightarrow>
     (\<forall>m \<in> set (measurements (foldl (hybrid_step L) s es)).
        m \<in> set (measurements s) \<or> \<not> is_finite (m_distance m))"
proof (induction es arbitrary: s)
  case Nil
  then show ?case by simp
next
  case (Cons e es)
  from Cons.prems have e: "\<not> starts_calibration e" and es: "\<forall>e \<in> set es. \<not> starts_calibration e"
    by auto
  from hybrid_degenerate_step[OF Cons.prems(1) e, of L]
  have a: "degenerate (hybrid_step L s e)"
    and b: "\<forall>m \<in> set (measurements (hybrid_step L s e)).
        m \<in> set (measurements s) \<or> \<not> is_finite (m_distance m)" by auto
  from Cons.IH[OF a es] b show ?case by simp blast
qed

lemma hybrid_table_realSize:
  "hybrid_referenceObjects k = Some r \<Longrightarrow>
     js_or (ref_width r) (ref_diameter r) = spec_realSize r \<and>
     js_lt (Fin 0) (ToNumber (spec_realSize r))"
  by (auto simp: hybrid_referenceObjects_def rect_ref_def round_ref_def js_or_def truthy_def
      spec_realSize_def ToNumber_def split: if_splits)

lemma hybrid_basic_click:
  assumes "referenceObject s = Some r" "isMeasuring s" "isCalibrationMode s"
    and "\<not> (currentMode s = Some ''precision'' \<and> isOpenCVReady s)"
    and "calibrationPoints s = [c1]"
  shows "hybrid_handleCanvasClick L x y now s =
     completeCalibration
       (s\<lparr>calibrationPoints := [c1, \<lparr>c_x = x, c_y = y, c_step = currentStep s\<rparr>],
          calibrationData := Some
            \<lparr>cd_pixelsPerMM = None, cd_perspectiveMatrix = None, cd_referenceObject = r,
             cd_scale = None, cd_mode = Some ''enhanced_basic'',
             cd_calibrationFactor = Some
               (js_mul (js_div (ToNumber (js_or (ref_width r) (ref_diameter r)))
                               (euclid (c_x c1) (c_y c1) x y))
                  (calibrationCorrection (canvasWidth s) (canvasHeight s) c1
                     \<lparr>c_x = x, c_y = y, c_step = currentStep s\<rparr>)),
             cd_distanceCorrection = Some
               (distanceRatio (canvasWidth s) (canvasHeight s) c1
                  \<lparr>c_x = x, c_y = y, c_step = currentStep s\<rparr>)\<rparr>\<rparr>)"
  using assms
  by (auto simp: hybrid_handleCanvasClick_def hybrid_handleCalibrationClick_def
      handleBasicCalibrationClick_def completeBasicCalibration_def settle_def Let_def)

lemma not_finite_simps: "\<not> is_finite PInf" "\<not> is_finite NInf" "\<not> is_finite NaN"
  by (simp_all add: is_finite_def)

lemma linear_same_pixel:
  assumes "linear_referenceObjects (referenceKey sel) = Some r"
    and "isMeasuring s" "isCalibrationMode s"
    and "measurementPoints s = [\<lparr>p_x = Fin a, p_y = Fin b, p_timestamp = t\<rparr>]"
  shows "linear_handleCanvasClick sel (Fin a) (Fin b) now s =
     emit (ShowMessage ''Calibration successful! You can now measure objects accurately.'')
       (s\<lparr>calibrationFactor := PInf, isCalibrated := True, isCalibrationMode := False,
          isMeasuring := False, measurementPoints := []\<rparr>)"
  using linear_table_realSize[OF assms(1)]
  by (simp add: linear_calibration_click[OF assms] pixelDistance_def euclid_same
      div_zero_not_finite)

lemma linear_same_pixel_measure:
  assumes "linear_referenceObjects (referenceKey sel) = Some r"
    and "isMeasuring s" "isCalibrationMode s"
    and "measurementPoints s = [\<lparr>p_x = Fin a, p_y = Fin b, p_timestamp = t\<rparr>]"
  shows "length (measurements (foldl linear_step (linear_handleCanvasClick sel (Fin a) (Fin b) now s)
             [L_toggleMeasurement, L_click sel1 x1 y1 t1, L_click sel2 x2 y2 t2]))
           = length (measurements s) + 1
       \<and> \<not> is_finite (m_distance (last (measurements
             (foldl linear_step (linear_handleCanvasClick sel (Fin a) (Fin b) now s)
                [L_toggleMeasurement, L_click sel1 x1 y1 t1, L_click sel2 x2 y2 t2]))))"
  unfolding linear_same_pixel[OF assms]
  by (simp add: linear_toggleMeasurement_def linear_startMeasuring_def
      linear_handleCanvasClick_def linear_calculateDistance_def emit_def Let_def
      not_finite_mul_right not_finite_simps)

lemma hybrid_same_pixel:
  assumes "hybrid_referenceObjects k = Some r" "referenceObject s = Some r"
    and "isMeasuring s" "isCalibrationMode s"
    and "\<not> (currentMode s = Some ''precision'' \<and> isOpenCVReady s)"
    and "calibrationPoints s = [\<lparr>c_x = Fin a, c_y = Fin b, c_step = n\<rparr>]"
  shows "isCalibrated (hybrid_handleCanvasClick L (Fin a) (Fin b) now s)
       \<and> degenerate (hybrid_handleCanvasClick L (Fin a) (Fin b) now s)
       \<and> calibrationData (hybrid_handleCanvasClick L (Fin a) (Fin b) now s) \<noteq> None
       \<and> \<not> isMeasuring (hybrid_handleCanvasClick L (Fin a) (Fin b) now s)
       \<and> measurements (hybrid_handleCanvasClick L (Fin a) (Fin b) now s) = measurements s"
  using hybrid_table_realSize[OF assms(1)]
  by (simp add: hybrid_basic_click[OF assms(2-6)] completeCalibration_def emit_def
      degenerate_def euclid_same div_zero_not_finite ToNumber_def not_finite_mul_left
      not_finite_simps)

lemma hybrid_degenerate_measure:
  assumes "degenerate s" "isCalibrated s" "calibrationData s \<noteq> None" "\<not> isMeasuring s"
  shows "length (measurements (foldl (hybrid_step L) s
             [H_toggleMeasurement, H_click x1 y1 t1, H_click x2 y2 t2]))
           = length (measurements s) + 1
       \<and> \<not> is_finite (m_distance (last (measurements (foldl (hybrid_step L) s
             [H_toggleMeasurement, H_click x1 y1 t1, H_click x2 y2 t2]))))"
proof -
  from assms(3) obtain cd where cd: "calibrationData s = Some cd" by auto
  with assms(1) have m: "cd_mode cd \<noteq> Some ''precision''"
    and f: "\<not> is_finite (ToNumber (cd_calibrationFactor cd))"
    and c: "\<not> isCalibrationMode s"
    by (auto simp: degenerate_def)
  show ?thesis
    using assms(2,4) cd m c
    by (simp add: hybrid_toggleMeasurement_def startMeasuring_def
      hybrid_handleCanvasClick_def hybrid_handleMeasurementClick_def hybrid_calculateDistance_def
      calculateEnhancedBasicDistance_def storeMeasurement_def resetMeasurementState_def
      emit_def Let_def not_finite_mul_left not_finite_mul_right f)
qed

text \<open>
  C9. Two-point calibration places no guard on the clicked points. In the two-point
  linear variant and in the enhanced basic calibration of the hybrid variant, when the
  second calibration click lands on the pixel of the first, the pixel distance is zero,
  the scale factor is the result of a division by zero and is not finite, and the
  calibrated flag is set all the same; until a calibration is started again every
  measurement that is stored has a distance that is not finite, and measuring two
  points right after the calibration does store such a measurement.
\<close>

theorem same_pixel_calibration:
  "(linear_referenceObjects (referenceKey sel) = Some r \<and> isMeasuring s \<and> isCalibrationMode s \<and>
    measurementPoints s = [\<lparr>p_x = Fin a, p_y = Fin b, p_timestamp = t\<rparr>] \<and>
    L_startCalibration \<notin> set es \<longrightarrow>
      pixelDistance \<lparr>p_x = Fin a, p_y = Fin b, p_timestamp = t\<rparr>
                    \<lparr>p_x = Fin a, p_y = Fin b, p_timestamp = now\<rparr> = Fin 0 \<and>
      calibrationFactor (linear_handleCanvasClick sel (Fin a) (Fin b) now s) = PInf \<and>
      isCalibrated (linear_handleCanvasClick sel (Fin a) (Fin b) now s) \<and>
      (\<forall>m \<in> set (measurements
                   (foldl linear_step (linear_handleCanvasClick sel (Fin a) (Fin b) now s) es)).
         m \<in> set (measurements s) \<or> \<not> is_finite (m_distance m)) \<and>
      length (measurements
               (foldl linear_step (linear_handleCanvasClick sel (Fin a) (Fin b) now s)
                  [L_toggleMeasurement, L_click sel1 x1 y1 t1, L_click sel2 x2 y2 t2]))
        = length (measurements s) + 1 \<and>
      \<not> is_finite (m_distance (last (measurements
               (foldl linear_step (linear_handleCanvasClick sel (Fin a) (Fin b) now s)
                  [L_toggleMeasurement, L_click sel1 x1 y1 t1, L_click sel2 x2 y2 t2])))))
   \<and>
   (hybrid_referenceObjects k = Some r' \<and> referenceObject h = Some r' \<and> isMeasuring h \<and>
    isCalibrationMode h \<and> \<not> (currentMode h = Some ''precision'' \<and> isOpenCVReady h) \<and>
    calibrationPoints h = [\<lparr>c_x = Fin a', c_y = Fin b', c_step = n\<rparr>] \<and>
    (\<forall>e \<in> set hs. \<not> starts_calibration e) \<longrightarrow>
      euclid (Fin a') (Fin b') (Fin a') (Fin b') = Fin 0 \<and>
      isCalibrated (hybrid_handleCanvasClick L (Fin a') (Fin b') now' h) \<and>
      (case calibrationData (hybrid_handleCanvasClick L (Fin a') (Fin b') now' h) of
         None \<Rightarrow> False
       | Some cd \<Rightarrow> \<not> is_finite (ToNumber (cd_calibrationFactor cd))) \<and>
      (\<forall>m \<in> set (measurements
                   (foldl (hybrid_step L) (hybrid_handleCanvasClick L (Fin a') (Fin b') now' h) hs)).
         m \<in> set (measurements h) \<or> \<not> is_finite (m_distance m)) \<and>
      length (measurements
               (foldl (hybrid_step L) (hybrid_handleCanvasClick L (Fin a') (Fin b') now' h)
                  [H_toggleMeasurement, H_click x3 y3 t3, H_click x4 y4 t4]))
        = length (measurements h) + 1 \<and>
      \<not> is_finite (m_distance (last (measurements
               (foldl (hybrid_step L) (hybrid_handleCanvasClick L (Fin a') (Fin b') now' h)
                  [H_toggleMeasurement, H_click x3 y3 t3, H_click x4 y4 t4])))))"
proof (intro conjI impI)
  assume A: "linear_referenceObjects (referenceKey sel) = Some r \<and> isMeasuring s \<and>
    isCalibrationMode s \<and>
    measurementPoints s = [\<lparr>p_x = Fin a, p_y = Fin b, p_timestamp = t\<rparr>] \<and>
    L_startCalibration \<notin> set es"
  let ?s' = "linear_handleCanvasClick sel (Fin a) (Fin b) now s"
  from A have a1: "linear_referenceObjects (referenceKey sel) = Some r"
    and a2: "isMeasuring s" and a3: "isCalibrationMode s"
    and a4: "measurementPoints s = [\<lparr>p_x = Fin a, p_y = Fin b, p_timestamp = t\<rparr>]"
    and a5: "L_startCalibration \<notin> set es" by auto
  note sp = linear_same_pixel[OF a1 a2 a3 a4, of now]
  show "pixelDistance \<lparr>p_x = Fin a, p_y = Fin b, p_timestamp = t\<rparr>
                    \<lparr>p_x = Fin a, p_y = Fin b, p_timestamp = now\<rparr> = Fin 0"
    by (simp add: pixelDistance_def euclid_same)
  show f: "calibrationFactor ?s' = PInf" by (simp add: sp emit_def)
  show "isCalibrated ?s'" by (simp add: sp emit_def)
  have m: "\<not> isCalibrationMode ?s'" and ms: "measurements ?s' = measurements s"
    by (simp_all add: sp emit_def)
  from linear_run_measurements[OF m a5] ms f
  show "\<forall>m \<in> set (measurements (foldl linear_step ?s' es)).
         m \<in> set (measurements s) \<or> \<not> is_finite (m_distance m)"
    by (auto simp: not_finite_mul_right not_finite_simps)
  from linear_same_pixel_measure[OF a1 a2 a3 a4, of now sel1 x1 y1 t1 sel2 x2 y2 t2]
  show "length (measurements (foldl linear_step ?s'
                  [L_toggleMeasurement, L_click sel1 x1 y1 t1, L_click sel2 x2 y2 t2]))
        = length (measurements s) + 1"
    and "\<not> is_finite (m_distance (last (measurements (foldl linear_step ?s'
                  [L_toggleMeasurement, L_click sel1 x1 y1 t1, L_click sel2 x2 y2 t2]))))"
    by blast+
next
  assume B: "hybrid_referenceObjects k = Some r' \<and> referenceObject h = Some r' \<and> isMeasuring h \<and>
    isCalibrationMode h \<and> \<not> (currentMode h = Some ''precision'' \<and> isOpenCVReady h) \<and>
    calibrationPoints h = [\<lparr>c_x = Fin a', c_y = Fin b', c_step = n\<rparr>] \<and>
    (\<forall>e \<in> set hs. \<not> starts_calibration e)"
  let ?h' = "hybrid_handleCanvasClick L (Fin a') (Fin b') now' h"
  from B have b1: "hybrid_referenceObjects k = Some r'" and b2: "referenceObject h = Some r'"
    and b3: "isMeasuring h" and b4: "isCalibrationMode h"
    and b5: "\<not> (currentMode h = Some ''precision'' \<and> isOpenCVReady h)"
    and b6: "calibrationPoints h = [\<lparr>c_x = Fin a', c_y = Fin b', c_step = n\<rparr>]"
    and b7: "\<forall>e \<in> set hs. \<not> starts_calibration e" by auto
  from hybrid_same_pixel[OF b1 b2 b3 b4 b5 b6, of L now']
  have c: "isCalibrated ?h'" and d: "degenerate ?h'" and n: "calibrationData ?h' \<noteq> None"
    and im: "\<not> isMeasuring ?h'" and ms: "measurements ?h' = measurements h" by auto
  show "euclid (Fin a') (Fin b') (Fin a') (Fin b') = Fin 0" by (rule euclid_same)
  show "isCalibrated ?h'" by (rule c)
  from d n show "case calibrationData ?h' of None \<Rightarrow> False
       | Some cd \<Rightarrow> \<not> is_finite (ToNumber (cd_calibrationFactor cd))"
    by (auto simp: degenerate_def)
  from hybrid_degenerate_run[OF d b7, of L] ms
  show "\<forall>m \<in> set (measurements (foldl (hybrid_step L) ?h' hs)).
         m \<in> set (measurements h) \<or> \<not> is_finite (m_distance m)" by simp
  from hybrid_degenerate_measure[OF d c n im, of L x3 y3 t3 x4 y4 t4] ms
  show "length (measurements (foldl (hybrid_step L) ?h'
                  [H_toggleMeasurement, H_click x3 y3 t3, H_click x4 y4 t4]))
        = length (measurements h) + 1"
    and "\<not> is_finite (m_distance (last (measurements (foldl (hybrid_step L) ?h'
                  [H_toggleMeasurement, H_click x3 y3 t3, H_click x4 y4 t4]))))"
    by simp_all
qed

theorem same_pixel_calibration_witness:
  "calibrationFactor
     (linear_handleCanvasClick None (Fin 7) (Fin 7) 2
        ((constructor :: unit app)\<lparr>isMeasuring := True, isCalibrationMode := True,
           measurementPoints := [\<lparr>p_x = Fin 7, p_y = Fin 7, p_timestamp = 1\<rparr>]\<rparr>)) = PInf
   \<and> isCalibrated
     (linear_handleCanvasClick None (Fin 7) (Fin 7) 2
        ((constructor :: unit app)\<lparr>isMeasuring := True, isCalibrationMode := True,
           measurementPoints := [\<lparr>p_x = Fin 7, p_y = Fin 7, p_timestamp = 1\<rparr>]\<rparr>))
   \<and> isCalibrated
     (hybrid_handleCanvasClick sample_cv (Fin 7) (Fin 7) 2
        ((constructor :: unit app)\<lparr>isMeasuring := True, isCalibrationMode := True,
           referenceObject := Some (round_ref ''US Quarter'' (2426 / 100)),
           calibrationPoints := [\<lparr>c_x = Fin 7, c_y = Fin 7, c_step = 0\<rparr>]\<rparr>))
   \<and> \<not> is_finite (m_distance (last (measurements
        (foldl (hybrid_step sample_cv)
           (hybrid_handleCanvasClick sample_cv (Fin 7) (Fin 7) 2
              ((constructor :: unit app)\<lparr>isMeasuring := True, isCalibrationMode := True,
                 referenceObject := Some (round_ref ''US Quarter'' (2426 / 100)),
                 calibrationPoints := [\<lparr>c_x = Fin 7, c_y = Fin 7, c_step = 0\<rparr>]\<rparr>))
           [H_toggleMeasurement, H_click (Fin 0) (Fin 0) 3, H_click (Fin 3) (Fin 4) 4]))))"
  using same_pixel_calibration[of None "rect_ref ''Credit Card'' (856 / 10) (5398 / 100)"
      "(constructor :: unit app)\<lparr>isMeasuring := True, isCalibrationMode := True,
           measurementPoints := [\<lparr>p_x = Fin 7, p_y = Fin 7, p_timestamp = 1\<rparr>]\<rparr>"
      7 7 1 "[]" 2 None "Fin 0" "Fin 0" 3 None "Fin 3" "Fin 4" 4
      "''quarter''" "round_ref ''US Quarter'' (2426 / 100)"
      "(constructor :: unit app)\<lparr>isMeasuring := True, isCalibrationMode := True,
           referenceObject := Some (round_ref ''US Quarter'' (2426 / 100)),
           calibrationPoints := [\<lparr>c_x = Fin 7, c_y = Fin 7, c_step = 0\<rparr>]\<rparr>"
      7 7 0 "[]" sample_cv 2 "Fin 0" "Fin 0" 3 "Fin 3" "Fin 4" 4]
  by (simp add: linear_referenceObjects_def hybrid_referenceObjects_def referenceKey_def
      constructor_def)

section \<open>The heuristic correction factors of the hybrid variant\<close>

lemma js_mul_one: "js_mul a (Fin 1) = a"
  by (cases a) auto

lemma half_diag_nz:
  assumes "\<not> (w = 0 \<and> h = 0)"
  shows "real w / 2 * (real w / 2) + real h / 2 * (real h / 2) \<noteq> 0"
proof
  assume "real w / 2 * (real w / 2) + real h / 2 * (real h / 2) = 0"
  then have "real w / 2 = 0 \<and> real h / 2 = 0"
    by (rule iffD1[OF sum_squares_eq_zero_iff])
  then show False using assms by simp
qed

lemma correction_value:
  assumes "\<not> (w = 0 \<and> h = 0)"
    and "p_x p1 = Fin x1" "p_y p1 = Fin y1" "p_x p2 = Fin x2" "p_y p2 = Fin y2"
  shows "correction w h p1 p2 =
     Fin (1 + sqrt (((x1 + x2) / 2 - real w / 2) * ((x1 + x2) / 2 - real w / 2) +
                    ((y1 + y2) / 2 - real h / 2) * ((y1 + y2) / 2 - real h / 2))
              / sqrt (real w / 2 * (real w / 2) + real h / 2 * (real h / 2)) * (15 / 100))"
proof -
  note nz = half_diag_nz[OF assms(1)]
  show ?thesis
    using nz
    by (simp add: correction_def Let_def assms(2-5) Math_pow_2 js_sub_def not_less)
qed

lemma ratio_le_one:
  fixes a b c d :: real
  assumes "a * a \<le> c * c" "b * b \<le> d * d" "c * c + d * d \<noteq> 0"
  shows "0 \<le> sqrt (a * a + b * b) / sqrt (c * c + d * d)"
    and "sqrt (a * a + b * b) / sqrt (c * c + d * d) \<le> 1"
proof -
  have pos: "0 < c * c + d * d"
    using assms(3) by (metis not_sum_squares_lt_zero less_eq_real_def not_less)
  then have sp: "0 < sqrt (c * c + d * d)" by simp
  show "0 \<le> sqrt (a * a + b * b) / sqrt (c * c + d * d)" by simp
  have "sqrt (a * a + b * b) \<le> sqrt (c * c + d * d)"
    using assms(1,2) by (simp add: add_mono)
  then show "sqrt (a * a + b * b) / sqrt (c * c + d * d) \<le> 1"
    using sp by simp
qed

lemma centred_square:
  fixes a c :: real
  assumes "0 \<le> a" "a \<le> 2 * c"
  shows "(a - c) * (a - c) \<le> c * c"
proof -
  have "(a - c) * (a - c) = c * c - a * (2 * c - a)" by (simp add: algebra_simps)
  moreover have "0 \<le> a * (2 * c - a)" using assms by simp
  ultimately show ?thesis by linarith
qed

lemma correction_bounds_lemma:
  assumes "\<not> (w = 0 \<and> h = 0)"
    and "p_x p1 = Fin x1" "p_y p1 = Fin y1" "p_x p2 = Fin x2" "p_y p2 = Fin y2"
    and "0 \<le> x1" "x1 \<le> real w" "0 \<le> y1" "y1 \<le> real h"
    and "0 \<le> x2" "x2 \<le> real w" "0 \<le> y2" "y2 \<le> real h"
  shows "js_le (Fin 1) (correction w h p1 p2) \<and> js_le (correction w h p1 p2) (Fin (115 / 100))"
proof -
  let ?a = "(x1 + x2) / 2 - real w / 2" and ?b = "(y1 + y2) / 2 - real h / 2"
  let ?c = "real w / 2" and ?d = "real h / 2"
  have a: "?a * ?a \<le> ?c * ?c"
    using centred_square[of "(x1 + x2) / 2" ?c] assms(6,7,10,11) by simp
  have b: "?b * ?b \<le> ?d * ?d"
    using centred_square[of "(y1 + y2) / 2" ?d] assms(8,9,12,13) by simp
  note nz = half_diag_nz[OF assms(1)]
  from ratio_le_one[OF a b nz]
  have r0: "0 \<le> sqrt (?a * ?a + ?b * ?b) / sqrt (?c * ?c + ?d * ?d)"
    and r1: "sqrt (?a * ?a + ?b * ?b) / sqrt (?c * ?c + ?d * ?d) \<le> 1" by auto
  define q where "q = 1 + sqrt (?a * ?a + ?b * ?b) / sqrt (?c * ?c + ?d * ?d) * (15 / 100)"
  have v: "correction w h p1 p2 = Fin q"
    unfolding q_def by (rule correction_value[OF assms(1-5)])
  have l: "1 \<le> q" unfolding q_def using r0 by simp
  have u: "q \<le> 115 / 100" unfolding q_def using r1 by simp
  show ?thesis
    unfolding v using l u by (auto simp: js_le_def)
qed

lemma diag_nz:
  assumes "\<not> (w = 0 \<and> h = 0)"
  shows "real w * real w + real h * real h \<noteq> 0"
proof
  assume "real w * real w + real h * real h = 0"
  then have "real w = 0 \<and> real h = 0"
    by (rule iffD1[OF sum_squares_eq_zero_iff])
  then show False using assms by simp
qed

lemma calibrationCorrection_value:
  assumes "\<not> (w = 0 \<and> h = 0)"
    and "c_x c1 = Fin x1" "c_y c1 = Fin y1" "c_x c2 = Fin x2" "c_y c2 = Fin y2"
  shows "calibrationCorrection w h c1 c2 =
     Fin (1 + sqrt (x1 * x1 + y1 * y1 + x2 * x2 + y2 * y2) / 2
              / (sqrt (real w * real w + real h * real h) / 2) * (1 / 10))"
proof -
  have s: "\<not> x1 * x1 + y1 * y1 + x2 * x2 + y2 * y2 < 0"
    by (simp add: not_less)
  have d: "sqrt (real w * real w + real h * real h) / 2 \<noteq> 0"
    using diag_nz[OF assms(1)] by simp
  show ?thesis
    using s d
    by (simp add: calibrationCorrection_def distanceRatio_def Let_def assms(2-5) not_less)
qed

lemma sq_mono:
  fixes a b :: real
  assumes "0 \<le> a" "a \<le> b"
  shows "a * a \<le> b * b"
  using assms by (simp add: mult_mono)

lemma four_le:
  fixes a b c d W H :: real
  assumes "a \<le> W" "b \<le> H" "c \<le> W" "d \<le> H"
  shows "a + b + c + d \<le> 2 * (W + H)"
proof -
  have "a + b \<le> W + H" using assms(1,2) by (rule add_mono)
  moreover have "c + d \<le> W + H" using assms(3,4) by (rule add_mono)
  ultimately have "(a + b) + (c + d) \<le> (W + H) + (W + H)" by (rule add_mono)
  then show ?thesis by (simp add: add.assoc)
qed

lemma calibrationCorrection_bounds:
  assumes "\<not> (w = 0 \<and> h = 0)"
    and "c_x c1 = Fin x1" "c_y c1 = Fin y1" "c_x c2 = Fin x2" "c_y c2 = Fin y2"
    and "0 \<le> x1" "x1 \<le> real w" "0 \<le> y1" "y1 \<le> real h"
    and "0 \<le> x2" "x2 \<le> real w" "0 \<le> y2" "y2 \<le> real h"
  shows "js_le (Fin 1) (calibrationCorrection w h c1 c2) \<and>
         js_le (calibrationCorrection w h c1 c2) (Fin (1 + sqrt 2 / 10))"
proof -
  let ?S = "x1 * x1 + y1 * y1 + x2 * x2 + y2 * y2"
  let ?D = "real w * real w + real h * real h"
  have D0: "0 < ?D"
    using diag_nz[OF assms(1)] by (metis not_sum_squares_lt_zero less_eq_real_def not_less)
  then have sD: "0 < sqrt ?D" by simp
  have S0: "0 \<le> ?S" by simp
  have "x1 * x1 \<le> real w * real w" "y1 * y1 \<le> real h * real h"
       "x2 * x2 \<le> real w * real w" "y2 * y2 \<le> real h * real h"
    using assms(6-13) by (simp_all add: sq_mono)
  then have "?S \<le> 2 * ?D" by (rule four_le)
  then have "sqrt ?S \<le> sqrt (2 * ?D)" by (rule real_sqrt_le_mono)
  moreover have "sqrt (2 * ?D) = sqrt 2 * sqrt ?D" by (rule real_sqrt_mult)
  ultimately have le: "sqrt ?S \<le> sqrt 2 * sqrt ?D" by (rule ord_le_eq_trans)
  define q where "q = sqrt ?S / 2 / (sqrt ?D / 2)"
  have q: "q = sqrt ?S / sqrt ?D" unfolding q_def by simp
  have q0: "0 \<le> q" unfolding q using S0 sD by simp
  have q1: "q \<le> sqrt 2" unfolding q using le sD by (simp add: pos_divide_le_eq)
  have v: "calibrationCorrection w h c1 c2 = Fin (1 + q * (1 / 10))"
    unfolding q_def by (rule calibrationCorrection_value[OF assms(1-5)])
  have l: "1 \<le> 1 + q * (1 / 10)" using q0 by simp
  have u: "1 + q * (1 / 10) \<le> 1 + sqrt 2 / 10" using q1 by simp
  show ?thesis
    unfolding v using l u by (auto simp: js_le_def)
qed

text \<open>
  C5 (as amended). In the enhanced basic mode of the hybrid variant, for two measurement
  points inside a canvas that is not of size 0 x 0, the factor
  \<open>1 + (distanceFromCenter / maxDistance) * 0.15\<close> is at least 1 and at most 1.15, and
  the stored distance is the uncorrected distance multiplied by that factor, or by 1
  when the correction is not applied. For two calibration points inside such a canvas
  the factor \<open>1 + distanceRatio * 0.1\<close> that the scale is multiplied with is at least 1
  and at most \<open>1 + sqrt 2 / 10\<close> (about 1.1414).
\<close>

theorem correction_factor_bounds:
  "(\<not> (w = 0 \<and> h = 0) \<and>
    p_x p1 = Fin x1 \<and> p_y p1 = Fin y1 \<and> p_x p2 = Fin x2 \<and> p_y p2 = Fin y2 \<and>
    0 \<le> x1 \<and> x1 \<le> real w \<and> 0 \<le> y1 \<and> y1 \<le> real h \<and>
    0 \<le> x2 \<and> x2 \<le> real w \<and> 0 \<le> y2 \<and> y2 \<le> real h \<longrightarrow>
      js_le (Fin 1) (correction w h p1 p2) \<and>
      js_le (correction w h p1 p2) (Fin (115 / 100)))
   \<and>
   (\<not> (w = 0 \<and> h = 0) \<and>
    c_x c1 = Fin x1 \<and> c_y c1 = Fin y1 \<and> c_x c2 = Fin x2 \<and> c_y c2 = Fin y2 \<and>
    0 \<le> x1 \<and> x1 \<le> real w \<and> 0 \<le> y1 \<and> y1 \<le> real h \<and>
    0 \<le> x2 \<and> x2 \<le> real w \<and> 0 \<le> y2 \<and> y2 \<le> real h \<longrightarrow>
      js_le (Fin 1) (calibrationCorrection w h c1 c2) \<and>
      js_le (calibrationCorrection w h c1 c2) (Fin (1 + sqrt 2 / 10)))
   \<and>
   (measurementPoints s = [q1, q2] \<and> calibrationData s = Some cd \<longrightarrow>
      (\<exists>c. (c = Fin 1 \<or> c = correction (canvasWidth s) (canvasHeight s) q1 q2) \<and>
           map m_distance (measurements (settle (calculateEnhancedBasicDistance now s))) =
             map m_distance (measurements s) @
               [js_mul (js_mul (pixelDistance q1 q2) (ToNumber (cd_calibrationFactor cd))) c]))
   \<and>
   (calibrationPoints t = [d1, d2] \<and> referenceObject t = Some r \<longrightarrow>
      (case calibrationData (settle (completeBasicCalibration t)) of
         None \<Rightarrow> False
       | Some cd' \<Rightarrow>
           cd_calibrationFactor cd' =
             Some (js_mul (js_div (ToNumber (js_or (ref_width r) (ref_diameter r)))
                                  (euclid (c_x d1) (c_y d1) (c_x d2) (c_y d2)))
                          (calibrationCorrection (canvasWidth t) (canvasHeight t) d1 d2))))"
proof (intro conjI impI)
  assume "\<not> (w = 0 \<and> h = 0) \<and>
    p_x p1 = Fin x1 \<and> p_y p1 = Fin y1 \<and> p_x p2 = Fin x2 \<and> p_y p2 = Fin y2 \<and>
    0 \<le> x1 \<and> x1 \<le> real w \<and> 0 \<le> y1 \<and> y1 \<le> real h \<and>
    0 \<le> x2 \<and> x2 \<le> real w \<and> 0 \<le> y2 \<and> y2 \<le> real h"
  then have "js_le (Fin 1) (correction w h p1 p2) \<and>
      js_le (correction w h p1 p2) (Fin (115 / 100))"
    by (intro correction_bounds_lemma) auto
  then show "js_le (Fin 1) (correction w h p1 p2)"
    and "js_le (correction w h p1 p2) (Fin (115 / 100))" by auto
next
  assume "\<not> (w = 0 \<and> h = 0) \<and>
    c_x c1 = Fin x1 \<and> c_y c1 = Fin y1 \<and> c_x c2 = Fin x2 \<and> c_y c2 = Fin y2 \<and>
    0 \<le> x1 \<and> x1 \<le> real w \<and> 0 \<le> y1 \<and> y1 \<le> real h \<and>
    0 \<le> x2 \<and> x2 \<le> real w \<and> 0 \<le> y2 \<and> y2 \<le> real h"
  then have "js_le (Fin 1) (calibrationCorrection w h c1 c2) \<and>
      js_le (calibrationCorrection w h c1 c2) (Fin (1 + sqrt 2 / 10))"
    by (intro calibrationCorrection_bounds) auto
  then show "js_le (Fin 1) (calibrationCorrection w h c1 c2)"
    and "js_le (calibrationCorrection w h c1 c2) (Fin (1 + sqrt 2 / 10))" by auto
next
  assume a: "measurementPoints s = [q1, q2] \<and> calibrationData s = Some cd"
  show "\<exists>c. (c = Fin 1 \<or> c = correction (canvasWidth s) (canvasHeight s) q1 q2) \<and>
           map m_distance (measurements (settle (calculateEnhancedBasicDistance now s))) =
             map m_distance (measurements s) @
               [js_mul (js_mul (pixelDistance q1 q2) (ToNumber (cd_calibrationFactor cd))) c]"
  proof (cases "case cd_distanceCorrection cd of None \<Rightarrow> False | Some d \<Rightarrow> truthy d")
    case True
    with a show ?thesis
      by (intro exI[of _ "correction (canvasWidth s) (canvasHeight s) q1 q2"])
         (simp add: calculateEnhancedBasicDistance_def storeMeasurement_def
            resetMeasurementState_def emit_def settle_def Let_def)
  next
    case False
    with a show ?thesis
      by (intro exI[of _ "Fin 1"])
         (simp add: calculateEnhancedBasicDistance_def storeMeasurement_def
            resetMeasurementState_def emit_def settle_def Let_def js_mul_one)
  qed
next
  assume "calibrationPoints t = [d1, d2] \<and> referenceObject t = Some r"
  then show "case calibrationData (settle (completeBasicCalibration t)) of
         None \<Rightarrow> False
       | Some cd' \<Rightarrow>
           cd_calibrationFactor cd' =
             Some (js_mul (js_div (ToNumber (js_or (ref_width r) (ref_diameter r)))
                                  (euclid (c_x d1) (c_y d1) (c_x d2) (c_y d2)))
                          (calibrationCorrection (canvasWidth t) (canvasHeight t) d1 d2))"
    by (simp add: completeBasicCalibration_def completeCalibration_def emit_def settle_def Let_def)
qed

theorem correction_factor_bounds_witness:
  "js_le (Fin 1) (correction 640 480 \<lparr>p_x = Fin 0, p_y = Fin 0, p_timestamp = 1\<rparr>
                                     \<lparr>p_x = Fin 640, p_y = Fin 0, p_timestamp = 2\<rparr>)
   \<and> js_le (correction 640 480 \<lparr>p_x = Fin 0, p_y = Fin 0, p_timestamp = 1\<rparr>
                               \<lparr>p_x = Fin 640, p_y = Fin 0, p_timestamp = 2\<rparr>) (Fin (115 / 100))
   \<and> js_le (Fin 1) (calibrationCorrection 640 480 \<lparr>c_x = Fin 640, c_y = Fin 480, c_step = 0\<rparr>
                                                  \<lparr>c_x = Fin 600, c_y = Fin 0, c_step = 0\<rparr>)
   \<and> js_le (calibrationCorrection 640 480 \<lparr>c_x = Fin 640, c_y = Fin 480, c_step = 0\<rparr>
                                          \<lparr>c_x = Fin 600, c_y = Fin 0, c_step = 0\<rparr>)
            (Fin (1 + sqrt 2 / 10))"
  using correction_factor_bounds[THEN conjunct1, of 640 480
      "\<lparr>p_x = Fin 0, p_y = Fin 0, p_timestamp = 1\<rparr>" 0 0
      "\<lparr>p_x = Fin 640, p_y = Fin 0, p_timestamp = 2\<rparr>" 640 0]
    correction_factor_bounds[THEN conjunct2, THEN conjunct1, of 640 480
      "\<lparr>c_x = Fin 640, c_y = Fin 480, c_step = 0\<rparr>" 640 480
      "\<lparr>c_x = Fin 600, c_y = Fin 0, c_step = 0\<rparr>" 600 0]
  by simp

text \<open>
  C5 as stated fails for the calibration-time factor: on a 640 x 480 canvas the
  calibration points (640, 480) and (600, 0) give the factor 1.125, which is above 1.1.
\<close>

theorem calibration_correction_counterexample:
  "calibrationCorrection 640 480 \<lparr>c_x = Fin 640, c_y = Fin 480, c_step = 0\<rparr>
                                 \<lparr>c_x = Fin 600, c_y = Fin 0, c_step = 0\<rparr> = Fin (9 / 8)
   \<and> \<not> js_le (calibrationCorrection 640 480 \<lparr>c_x = Fin 640, c_y = Fin 480, c_step = 0\<rparr>
                                             \<lparr>c_x = Fin 600, c_y = Fin 0, c_step = 0\<rparr>)
               (Fin (11 / 10))"
  by (simp add: calibrationCorrection_def distanceRatio_def Let_def js_le_def)

section \<open>The OpenCV variant: reachable states and pending points\<close>

lemmas opencv_defs = onOpenCvReady_def opencv_resetCalibration_def opencv_goBack_def
  opencv_showBasicCalibration_def opencv_initializePrecisionMode_def opencv_initializeARMode_def
  opencv_initializeBasicMode_def opencv_selectMode_def opencv_startPrecisionCalibration_def
  opencv_completePrecisionCalibration_def opencv_handleCalibrationClick_def
  opencv_calculateDistanceWithPerspectiveCorrection_def opencv_calculateBasicDistance_def
  opencv_calculatePreciseDistance_def opencv_handleMeasurementClick_def
  opencv_handleCanvasClick_def startMeasuring_def stopMeasuring_def opencv_toggleMeasurement_def
  undoLastPoint_def clearMeasurements_def opencv_exportMeasurements_def startNewMeasurement_def
  opencv_showRecalibration_def resetMeasurementState_def initializeCamera_def setupCanvas_def
  emit_def

lemma opencv_inv_step: "opencv_inv s \<Longrightarrow> opencv_inv (opencv_step L s e)"
  by (cases e)
     (auto simp: opencv_inv_def opencv_defs Let_def split: list.splits option.splits sum.splits)

lemma opencv_inv_foldl: "opencv_inv s \<Longrightarrow> opencv_inv (foldl (opencv_step L) s es)"
  by (induction es arbitrary: s) (auto simp: opencv_inv_step)

lemma opencv_inv_run: "opencv_inv (opencv_run L es)"
  unfolding opencv_run_def by (rule opencv_inv_foldl) (simp add: opencv_inv_def constructor_def)







section \<open>The hybrid variant: reachable states and the fallback\<close>

text \<open>The part of the state the library's presence is about.\<close>

lemma storeMeasurement_frame:
  "isOpenCVReady (storeMeasurement now a b md acc s) = isOpenCVReady s \<and>
   perspectiveMatrix (storeMeasurement now a b md acc s) = perspectiveMatrix s \<and>
   calibrationData (storeMeasurement now a b md acc s) = calibrationData s \<and>
   cv_calls (storeMeasurement now a b md acc s) = cv_calls s"
  by (simp add: storeMeasurement_def resetMeasurementState_def emit_def Let_def cv_calls_def
      is_cv_def)

lemma enhanced_frame:
  "isOpenCVReady (settle (calculateEnhancedBasicDistance now s)) = isOpenCVReady s \<and>
   perspectiveMatrix (settle (calculateEnhancedBasicDistance now s)) = perspectiveMatrix s \<and>
   calibrationData (settle (calculateEnhancedBasicDistance now s)) = calibrationData s \<and>
   cv_calls (settle (calculateEnhancedBasicDistance now s)) = cv_calls s"
  by (simp add: calculateEnhancedBasicDistance_def settle_def Let_def storeMeasurement_frame
      split: list.splits option.splits)

lemma precise_frame:
  "isOpenCVReady (settle (hybrid_calculatePreciseDistance L now s)) = isOpenCVReady s \<and>
   perspectiveMatrix (settle (hybrid_calculatePreciseDistance L now s)) = perspectiveMatrix s \<and>
   calibrationData (settle (hybrid_calculatePreciseDistance L now s)) = calibrationData s"
  by (simp add: hybrid_calculatePreciseDistance_def settle_def Let_def storeMeasurement_def
      resetMeasurementState_def emit_def
      split: list.splits option.splits)

lemma settle_error_frame:
  "isOpenCVReady (case r of Inr t \<Rightarrow> t | Inl t \<Rightarrow> emit (ShowError msg) t) = isOpenCVReady (settle r) \<and>
   perspectiveMatrix (case r of Inr t \<Rightarrow> t | Inl t \<Rightarrow> emit (ShowError msg) t) = perspectiveMatrix (settle r) \<and>
   calibrationData (case r of Inr t \<Rightarrow> t | Inl t \<Rightarrow> emit (ShowError msg) t) = calibrationData (settle r) \<and>
   cv_calls (case r of Inr t \<Rightarrow> t | Inl t \<Rightarrow> emit (ShowError msg) t) = cv_calls (settle r)"
  by (cases r) (simp_all add: settle_def emit_def cv_calls_def is_cv_def)

lemma calculateDistance_frame:
  "isOpenCVReady (hybrid_calculateDistance L now s) = isOpenCVReady s \<and>
   perspectiveMatrix (hybrid_calculateDistance L now s) = perspectiveMatrix s \<and>
   calibrationData (hybrid_calculateDistance L now s) = calibrationData s"
proof (cases "length (measurementPoints s) \<noteq> 2 \<or> \<not> isCalibrated s")
  case True
  then show ?thesis by (simp add: hybrid_calculateDistance_def)
next
  case False
  show ?thesis
  proof (cases "calibrationData s")
    case None
    with False show ?thesis by (simp add: hybrid_calculateDistance_def emit_def)
  next
    case (Some cd)
    show ?thesis
    proof (cases "cd_mode cd = Some ''precision'' \<and> perspectiveMatrix s \<noteq> None")
      case True
      with False Some have "hybrid_calculateDistance L now s =
          (case hybrid_calculatePreciseDistance L now s of Inr t \<Rightarrow> t
           | Inl t \<Rightarrow> emit (ShowError ''Distance calculation failed. Please try again.'') t)"
        by (simp add: hybrid_calculateDistance_def)
      then show ?thesis using settle_error_frame[where r = "hybrid_calculatePreciseDistance L now s"]
          precise_frame[of L now s] by simp
    next
      case no: False
      with False Some have "hybrid_calculateDistance L now s =
          (case calculateEnhancedBasicDistance now s of Inr t \<Rightarrow> t
           | Inl t \<Rightarrow> emit (ShowError ''Distance calculation failed. Please try again.'') t)"
        by (auto simp: hybrid_calculateDistance_def)
      then show ?thesis using settle_error_frame[where r = "calculateEnhancedBasicDistance now s"]
          enhanced_frame[of now s] by simp
    qed
  qed
qed

lemma measurementClick_frame:
  "isOpenCVReady (hybrid_handleMeasurementClick L x y now s) = isOpenCVReady s \<and>
   perspectiveMatrix (hybrid_handleMeasurementClick L x y now s) = perspectiveMatrix s \<and>
   calibrationData (hybrid_handleMeasurementClick L x y now s) = calibrationData s"
  by (simp add: hybrid_handleMeasurementClick_def Let_def calculateDistance_frame)


lemma completeBasic_inv:
  "hybrid_inv s \<Longrightarrow> hybrid_inv (settle (completeBasicCalibration s))"
  by (simp add: completeBasicCalibration_def completeCalibration_def settle_def emit_def Let_def
      hybrid_inv_def split: list.splits option.splits)

lemma completeBasic_frame:
  "isOpenCVReady (settle (completeBasicCalibration s)) = isOpenCVReady s \<and>
   perspectiveMatrix (settle (completeBasicCalibration s)) = perspectiveMatrix s \<and>
   cv_calls (settle (completeBasicCalibration s)) = cv_calls s"
  by (simp add: completeBasicCalibration_def completeCalibration_def settle_def emit_def Let_def
      cv_calls_def is_cv_def split: list.splits option.splits)

lemma emit_inv: "hybrid_inv (emit e s) = hybrid_inv s"
  by (simp add: hybrid_inv_def emit_def)

lemma completePrecision_inv:
  assumes "hybrid_inv s"
  shows "hybrid_inv (settle (hybrid_completePrecisionCalibration L s))"
proof (cases "length (calibrationPoints s) \<noteq> 4 \<or> \<not> isOpenCVReady s")
  case True
  then show ?thesis
    using assms by (simp add: hybrid_completePrecisionCalibration_def settle_def emit_inv)
next
  case False
  then have rdy: "isOpenCVReady s" by simp
  show ?thesis
  proof (cases "referenceObject s")
    case None
    with False show ?thesis
      using completeBasic_inv[of "emit (ShowError ''Precision calibration failed. Using enhanced basic mode.'') s"] assms
      by (simp add: hybrid_completePrecisionCalibration_def emit_inv)
  next
    case (Some r)
    let ?src = "flat_corners (calibrationPoints s)"
    let ?dst = "dstPoints (ToNumber (ref_width r)) (ToNumber (ref_height r)) (Fin 10)"
    let ?s1 = "emit (CvGetPerspectiveTransform ?src ?dst)
                 (emit (CvMatFromArray ?dst) (emit (CvMatFromArray ?src) s))"
    show ?thesis
    proof (cases "getPerspectiveTransform L ?src ?dst")
      case None
      with False Some show ?thesis
        using completeBasic_inv[of "emit (ShowError ''Precision calibration failed. Using enhanced basic mode.'') ?s1"] assms
        by (simp add: hybrid_completePrecisionCalibration_def emit_inv Let_def)
    next
      case M: (Some M)
      with False Some show ?thesis
        using assms rdy
        by (simp add: hybrid_completePrecisionCalibration_def Let_def settle_def
            completeCalibration_def emit_def hybrid_inv_def)
    qed
  qed
qed

lemma calibrationClick_inv:
  assumes "hybrid_inv s"
  shows "hybrid_inv (hybrid_handleCalibrationClick L x y s)"
proof -
  let ?s1 = "s\<lparr>calibrationPoints :=
                 calibrationPoints s @ [\<lparr>c_x = x, c_y = y, c_step = currentStep s\<rparr>]\<rparr>"
  have i1: "hybrid_inv ?s1" using assms by (simp add: hybrid_inv_def)
  have i2: "hybrid_inv (?s1\<lparr>currentStep := currentStep ?s1 + 1\<rparr>)"
    using assms by (simp add: hybrid_inv_def)
  show ?thesis
    using i1 i2 completePrecision_inv[OF i1, of L] completeBasic_inv[OF i1]
    by (simp add: hybrid_handleCalibrationClick_def handlePrecisionCalibrationClick_def
        handleBasicCalibrationClick_def Let_def settle_def)
qed

lemma measurementClick_inv:
  "hybrid_inv s \<Longrightarrow> hybrid_inv (hybrid_handleMeasurementClick L x y now s)"
  using measurementClick_frame[of L x y now s] by (simp add: hybrid_inv_def)

lemma canvasClick_inv:
  "hybrid_inv s \<Longrightarrow> hybrid_inv (hybrid_handleCanvasClick L x y now s)"
  by (simp add: hybrid_handleCanvasClick_def calibrationClick_inv measurementClick_inv)

lemma hybrid_inv_step:
  assumes "hybrid_inv s"
  shows "hybrid_inv (hybrid_step L s e)"
proof (cases e)
  case (H_click x y now)
  then show ?thesis using canvasClick_inv[OF assms, of L x y now] by simp
qed (use assms in \<open>auto simp: hybrid_inv_def onOpenCVReady_def
      onOpenCVFailed_def loadingTimeout_def hybrid_selectMode_def
      hybrid_initializePrecisionMode_def hybrid_initializeBasicMode_def initializeCamera_def
      hybrid_toggleMeasurement_def clearMeasurements_def undoLastPoint_def hybrid_goBack_def
      hybrid_resetCalibration_def hybrid_exportMeasurements_def startNewMeasurement_def
      hybrid_showRecalibration_def hybrid_startPrecisionCalibration_def
      hybrid_startBasicCalibration_def setupCanvas_def startMeasuring_def stopMeasuring_def
      resetMeasurementState_def emit_def Let_def\<close>)

lemma hybrid_inv_foldl: "hybrid_inv s \<Longrightarrow> hybrid_inv (foldl (hybrid_step L) s es)"
  by (induction es arbitrary: s) (auto simp: hybrid_inv_step)

lemma hybrid_inv_run: "hybrid_inv (hybrid_run L es)"
  unfolding hybrid_run_def by (rule hybrid_inv_foldl) (simp add: hybrid_inv_def constructor_def)















section \<open>Precision calibration: the four corners\<close>

lemma flat_corners_four:
  "flat_corners [c1, c2, c3, c4] =
     [c_x c1, c_y c1, c_x c2, c_y c2, c_x c3, c_y c3, c_x c4, c_y c4]"
  by (simp add: flat_corners_def)

lemma dstPoints_finite:
  "dstPoints (Fin W) (Fin H) (Fin 10) =
     [Fin 0, Fin 0, Fin (W * 10), Fin 0, Fin (W * 10), Fin (H * 10), Fin 0, Fin (H * 10)]"
  by (simp add: dstPoints_def)

lemma opencv_completion:
  assumes "calibrationPoints s = [c1, c2, c3, c4]" "isOpenCVReady s" "referenceObject s = Some r"
    and "getPerspectiveTransform L (flat_corners [c1, c2, c3, c4])
           (dstPoints (ToNumber (ref_width r)) (ToNumber (ref_height r)) (Fin 10)) = Some M"
  shows "out (opencv_completePrecisionCalibration L s) =
           out s @ [CvMatFromArray (flat_corners [c1, c2, c3, c4]),
                    CvMatFromArray (dstPoints (ToNumber (ref_width r)) (ToNumber (ref_height r)) (Fin 10)),
                    CvGetPerspectiveTransform (flat_corners [c1, c2, c3, c4])
                      (dstPoints (ToNumber (ref_width r)) (ToNumber (ref_height r)) (Fin 10)),
                    CvDelete, CvDelete, ShowMessage ''Precision calibration successful!'']"
    and "perspectiveMatrix (opencv_completePrecisionCalibration L s) = Some M"
    and "isCalibrated (opencv_completePrecisionCalibration L s)"
    and "\<not> isCalibrationMode (opencv_completePrecisionCalibration L s)"
    and "calibrationPoints (opencv_completePrecisionCalibration L s) = []"
    and "currentStep (opencv_completePrecisionCalibration L s) = currentStep s"
  using assms
  by (simp_all add: opencv_completePrecisionCalibration_def Let_def emit_def)







lemma hybrid_completion:
  assumes "calibrationPoints s = [c1, c2, c3, c4]" "isOpenCVReady s" "referenceObject s = Some r"
    and "getPerspectiveTransform L (flat_corners [c1, c2, c3, c4])
           (dstPoints (ToNumber (ref_width r)) (ToNumber (ref_height r)) (Fin 10)) = Some M"
  shows "out (settle (hybrid_completePrecisionCalibration L s)) =
           out s @ [CvMatFromArray (flat_corners [c1, c2, c3, c4]),
                    CvMatFromArray (dstPoints (ToNumber (ref_width r)) (ToNumber (ref_height r)) (Fin 10)),
                    CvGetPerspectiveTransform (flat_corners [c1, c2, c3, c4])
                      (dstPoints (ToNumber (ref_width r)) (ToNumber (ref_height r)) (Fin 10)),
                    CvDelete, CvDelete, ShowMessage ''Calibration successful!'']"
    and "perspectiveMatrix (settle (hybrid_completePrecisionCalibration L s)) = Some M"
    and "isCalibrated (settle (hybrid_completePrecisionCalibration L s))"
    and "\<not> isCalibrationMode (settle (hybrid_completePrecisionCalibration L s))"
    and "calibrationPoints (settle (hybrid_completePrecisionCalibration L s)) = []"
    and "currentStep (settle (hybrid_completePrecisionCalibration L s)) = currentStep s"
  using assms
  by (simp_all add: hybrid_completePrecisionCalibration_def completeCalibration_def Let_def
      emit_def settle_def)








section \<open>The perspective transform is the library's\<close>

lemma opencv_precise_frame:
  "perspectiveMatrix (opencv_calculatePreciseDistance L now s) = perspectiveMatrix s"
proof (cases "length (measurementPoints s) \<noteq> 2 \<or> \<not> isCalibrated s")
  case True
  then show ?thesis by (simp add: opencv_calculatePreciseDistance_def)
next
  case False
  have a: "perspectiveMatrix (settle (opencv_calculateDistanceWithPerspectiveCorrection L now s))
             = perspectiveMatrix s"
    by (simp add: opencv_calculateDistanceWithPerspectiveCorrection_def settle_def Let_def
        resetMeasurementState_def emit_def split: list.splits option.splits)
  have b: "perspectiveMatrix (settle (opencv_calculateBasicDistance now s)) = perspectiveMatrix s"
    by (simp add: opencv_calculateBasicDistance_def settle_def Let_def
        resetMeasurementState_def emit_def split: list.splits option.splits)
  have c: "\<And>r. perspectiveMatrix (case r of Inr t \<Rightarrow> t
              | Inl t \<Rightarrow> emit (ShowError ''Distance calculation failed. Please try again.'') t)
            = perspectiveMatrix (settle r)"
    by (simp add: settle_def emit_def split: sum.splits)
  from False show ?thesis
    by (simp add: opencv_calculatePreciseDistance_def a b c)
qed

lemma opencv_measurementClick_frame:
  "perspectiveMatrix (opencv_handleMeasurementClick L x y now s) = perspectiveMatrix s"
  by (simp add: opencv_handleMeasurementClick_def Let_def opencv_precise_frame)

lemma opencv_completion_provenance:
  "perspectiveMatrix (opencv_completePrecisionCalibration L s) = perspectiveMatrix s \<or>
   perspectiveMatrix (opencv_completePrecisionCalibration L s) = None \<or>
   from_library L (perspectiveMatrix (opencv_completePrecisionCalibration L s))"
  by (auto simp: opencv_completePrecisionCalibration_def Let_def emit_def from_library_def
      opencv_resetCalibration_def split: option.splits)

lemma opencv_calibrationClick_provenance:
  "perspectiveMatrix (opencv_handleCalibrationClick L x y s) = perspectiveMatrix s \<or>
   perspectiveMatrix (opencv_handleCalibrationClick L x y s) = None \<or>
   from_library L (perspectiveMatrix (opencv_handleCalibrationClick L x y s))"
  using opencv_completion_provenance[of L "s\<lparr>calibrationPoints :=
                   calibrationPoints s @ [\<lparr>c_x = x, c_y = y, c_step = currentStep s\<rparr>]\<rparr>"]
  by (simp add: opencv_handleCalibrationClick_def Let_def)

lemma opencv_step_provenance:
  "perspectiveMatrix (opencv_step L s e) = perspectiveMatrix s \<or>
   perspectiveMatrix (opencv_step L s e) = None \<or>
   from_library L (perspectiveMatrix (opencv_step L s e))"
proof (cases e)
  case (O_click x y now)
  then show ?thesis
    using opencv_calibrationClick_provenance[of L x y s]
      opencv_measurementClick_frame[of L x y now s]
    by (simp add: opencv_handleCanvasClick_def)
qed (simp_all add: onOpenCvReady_def opencv_selectMode_def opencv_initializePrecisionMode_def
      opencv_initializeARMode_def opencv_initializeBasicMode_def opencv_showBasicCalibration_def
      initializeCamera_def opencv_goBack_def opencv_resetCalibration_def
      opencv_toggleMeasurement_def clearMeasurements_def undoLastPoint_def
      opencv_exportMeasurements_def startNewMeasurement_def opencv_showRecalibration_def
      opencv_startPrecisionCalibration_def setupCanvas_def startMeasuring_def stopMeasuring_def
      resetMeasurementState_def emit_def Let_def)

lemma hybrid_completion_provenance:
  "perspectiveMatrix (settle (hybrid_completePrecisionCalibration L s)) = perspectiveMatrix s \<or>
   perspectiveMatrix (settle (hybrid_completePrecisionCalibration L s)) = None \<or>
   from_library L (perspectiveMatrix (settle (hybrid_completePrecisionCalibration L s)))"
proof (cases "length (calibrationPoints s) \<noteq> 4 \<or> \<not> isOpenCVReady s")
  case True
  then show ?thesis
    by (simp add: hybrid_completePrecisionCalibration_def settle_def emit_def)
next
  case False
  show ?thesis
  proof (cases "referenceObject s")
    case None
    with False show ?thesis
      using completeBasic_frame[of "emit (ShowError ''Precision calibration failed. Using enhanced basic mode.'') s"]
      by (simp add: hybrid_completePrecisionCalibration_def emit_def)
  next
    case (Some r)
    let ?src = "flat_corners (calibrationPoints s)"
    let ?dst = "dstPoints (ToNumber (ref_width r)) (ToNumber (ref_height r)) (Fin 10)"
    let ?s1 = "emit (CvGetPerspectiveTransform ?src ?dst)
                 (emit (CvMatFromArray ?dst) (emit (CvMatFromArray ?src) s))"
    show ?thesis
    proof (cases "getPerspectiveTransform L ?src ?dst")
      case None
      with False Some show ?thesis
        using completeBasic_frame[of "emit (ShowError ''Precision calibration failed. Using enhanced basic mode.'') ?s1"]
        by (simp add: hybrid_completePrecisionCalibration_def emit_def Let_def)
    next
      case M: (Some M)
      have "from_library L (Some M)"
        unfolding from_library_def using M by metis
      with False Some M show ?thesis
        by (simp add: hybrid_completePrecisionCalibration_def Let_def settle_def
            completeCalibration_def emit_def)
    qed
  qed
qed

lemma hybrid_calibrationClick_provenance:
  "perspectiveMatrix (hybrid_handleCalibrationClick L x y s) = perspectiveMatrix s \<or>
   perspectiveMatrix (hybrid_handleCalibrationClick L x y s) = None \<or>
   from_library L (perspectiveMatrix (hybrid_handleCalibrationClick L x y s))"
  using hybrid_completion_provenance[of L "s\<lparr>calibrationPoints :=
                   calibrationPoints s @ [\<lparr>c_x = x, c_y = y, c_step = currentStep s\<rparr>]\<rparr>"]
    completeBasic_frame[of "s\<lparr>calibrationPoints :=
                   calibrationPoints s @ [\<lparr>c_x = x, c_y = y, c_step = currentStep s\<rparr>]\<rparr>"]
  by (simp add: hybrid_handleCalibrationClick_def handlePrecisionCalibrationClick_def
      handleBasicCalibrationClick_def Let_def settle_def)

lemma hybrid_step_provenance:
  "perspectiveMatrix (hybrid_step L s e) = perspectiveMatrix s \<or>
   perspectiveMatrix (hybrid_step L s e) = None \<or>
   from_library L (perspectiveMatrix (hybrid_step L s e))"
proof (cases e)
  case (H_click x y now)
  then show ?thesis
    using hybrid_calibrationClick_provenance[of L x y s]
      measurementClick_frame[of L x y now s]
    by (simp add: hybrid_handleCanvasClick_def)
qed (simp_all add: onOpenCVReady_def onOpenCVFailed_def loadingTimeout_def hybrid_selectMode_def
      hybrid_initializePrecisionMode_def hybrid_initializeBasicMode_def initializeCamera_def
      hybrid_toggleMeasurement_def clearMeasurements_def undoLastPoint_def hybrid_goBack_def
      hybrid_resetCalibration_def hybrid_exportMeasurements_def startNewMeasurement_def
      hybrid_showRecalibration_def hybrid_startPrecisionCalibration_def
      hybrid_startBasicCalibration_def setupCanvas_def startMeasuring_def stopMeasuring_def
      resetMeasurementState_def emit_def Let_def)

lemma ToNumber_Some: "ToNumber (Some a) = a"
  by (simp add: ToNumber_def)

lemma data32F_four:
  "ToNumber (data32F [a, b, c, d] 0) = a" "ToNumber (data32F [a, b, c, d] (Suc 0)) = b"
  "ToNumber (data32F [a, b, c, d] 2) = c" "ToNumber (data32F [a, b, c, d] 3) = d"
  by (simp_all add: data32F_def ToNumber_def)

lemma opencv_precise_measure:
  assumes "opencv_inv s" "isCalibrated s" "currentMode s = Some ''precision''"
    and "measurementPoints s = [p1, p2]" "perspectiveMatrix s = Some M"
    and "perspectiveTransform L [p_x p1, p_y p1, p_x p2, p_y p2] M = Some [a, b, c, d]"
  shows "map m_distance (measurements (opencv_calculatePreciseDistance L now s)) =
           map m_distance (measurements s) @ [js_div (euclid a b c d) (Fin 10)] \<and>
         out (opencv_calculatePreciseDistance L now s) =
           out s @ [CvMatFromArray [p_x p1, p_y p1, p_x p2, p_y p2], CvNewMat,
                    CvPerspectiveTransform [p_x p1, p_y p1, p_x p2, p_y p2] M,
                    CvDelete, CvDelete, ShowMessage ''Distance'']"
proof -
  from assms(1,2) obtain cd where cd: "calibrationData s = Some cd"
    and sc: "cd_scale cd = Some (Fin 10)"
    by (auto simp: opencv_inv_def)
  show ?thesis
    using assms(2-6) cd sc
    by (simp add: opencv_calculatePreciseDistance_def
        opencv_calculateDistanceWithPerspectiveCorrection_def Let_def data32F_four
        resetMeasurementState_def emit_def ToNumber_Some)
qed

lemma hybrid_precise_measure:
  assumes "hybrid_inv s" "isCalibrated s" "calibrationData s = Some cd"
    and "cd_mode cd = Some ''precision''"
    and "measurementPoints s = [p1, p2]" "perspectiveMatrix s = Some M"
    and "perspectiveTransform L [p_x p1, p_y p1, p_x p2, p_y p2] M = Some [a, b, c, d]"
  shows "map m_distance (measurements (hybrid_calculateDistance L now s)) =
           map m_distance (measurements s) @ [js_div (euclid a b c d) (Fin 10)] \<and>
         out (hybrid_calculateDistance L now s) =
           out s @ [CvMatFromArray [p_x p1, p_y p1, p_x p2, p_y p2], CvNewMat,
                    CvPerspectiveTransform [p_x p1, p_y p1, p_x p2, p_y p2] M,
                    ShowMessage ''Distance'', CvDelete, CvDelete]"
proof -
  from assms(1,3,4) have sc: "cd_scale cd = Some (Fin 10)"
    by (auto simp: hybrid_inv_def)
  show ?thesis
    using assms(2-7) sc
    by (simp add: hybrid_calculateDistance_def hybrid_calculatePreciseDistance_def Let_def
        data32F_four storeMeasurement_def resetMeasurementState_def emit_def ToNumber_Some)
qed

text \<open>
  C3. The four-point perspective transform is not computed by the applications' own
  code. Precision calibration (OpenCV and hybrid variants) obtains it by one call of the
  library's solve, passing the four clicked corners and the destination rectangle
  (0, 0), (W * 10, 0), (W * 10, H * 10), (0, H * 10) for the reference dimensions W and
  H, and stores what the call returned. Precision measurement passes the two clicked
  points and that transform to the library's point transform and stores as millimetres
  the Euclidean distance of the two returned points divided by the scale 10 (the scale
  of the calibration data in every state the applications reach). After any handler the
  stored transform is the one stored before, or none, or one a solve of the library
  returned.
\<close>

theorem perspective_transform_by_library:
  "(calibrationPoints s = [c1, c2, c3, c4] \<and> isOpenCVReady s \<and> referenceObject s = Some r \<and>
    ref_width r = Some (Fin W) \<and> ref_height r = Some (Fin H) \<and>
    getPerspectiveTransform L
      [c_x c1, c_y c1, c_x c2, c_y c2, c_x c3, c_y c3, c_x c4, c_y c4]
      [Fin 0, Fin 0, Fin (W * 10), Fin 0, Fin (W * 10), Fin (H * 10), Fin 0, Fin (H * 10)]
      = Some M \<longrightarrow>
      out (opencv_completePrecisionCalibration L s) =
        out s @
        [CvMatFromArray [c_x c1, c_y c1, c_x c2, c_y c2, c_x c3, c_y c3, c_x c4, c_y c4],
         CvMatFromArray
           [Fin 0, Fin 0, Fin (W * 10), Fin 0, Fin (W * 10), Fin (H * 10), Fin 0, Fin (H * 10)],
         CvGetPerspectiveTransform
           [c_x c1, c_y c1, c_x c2, c_y c2, c_x c3, c_y c3, c_x c4, c_y c4]
           [Fin 0, Fin 0, Fin (W * 10), Fin 0, Fin (W * 10), Fin (H * 10), Fin 0, Fin (H * 10)],
         CvDelete, CvDelete, ShowMessage ''Precision calibration successful!''] \<and>
      perspectiveMatrix (opencv_completePrecisionCalibration L s) = Some M \<and>
      out (settle (hybrid_completePrecisionCalibration L s)) =
        out s @
        [CvMatFromArray [c_x c1, c_y c1, c_x c2, c_y c2, c_x c3, c_y c3, c_x c4, c_y c4],
         CvMatFromArray
           [Fin 0, Fin 0, Fin (W * 10), Fin 0, Fin (W * 10), Fin (H * 10), Fin 0, Fin (H * 10)],
         CvGetPerspectiveTransform
           [c_x c1, c_y c1, c_x c2, c_y c2, c_x c3, c_y c3, c_x c4, c_y c4]
           [Fin 0, Fin 0, Fin (W * 10), Fin 0, Fin (W * 10), Fin (H * 10), Fin 0, Fin (H * 10)],
         CvDelete, CvDelete, ShowMessage ''Calibration successful!''] \<and>
      perspectiveMatrix (settle (hybrid_completePrecisionCalibration L s)) = Some M)
   \<and> (opencv_inv s \<and> isCalibrated s \<and> currentMode s = Some ''precision'' \<and>
      measurementPoints s = [p1, p2] \<and> perspectiveMatrix s = Some M \<and>
      perspectiveTransform L [p_x p1, p_y p1, p_x p2, p_y p2] M = Some [a, b, c, d] \<longrightarrow>
        map m_distance (measurements (opencv_calculatePreciseDistance L now s)) =
          map m_distance (measurements s) @ [js_div (euclid a b c d) (Fin 10)] \<and>
        out (opencv_calculatePreciseDistance L now s) =
          out s @ [CvMatFromArray [p_x p1, p_y p1, p_x p2, p_y p2], CvNewMat,
                   CvPerspectiveTransform [p_x p1, p_y p1, p_x p2, p_y p2] M,
                   CvDelete, CvDelete, ShowMessage ''Distance''])
   \<and> (hybrid_inv s \<and> isCalibrated s \<and> calibrationData s = Some cd \<and>
      cd_mode cd = Some ''precision'' \<and>
      measurementPoints s = [p1, p2] \<and> perspectiveMatrix s = Some M \<and>
      perspectiveTransform L [p_x p1, p_y p1, p_x p2, p_y p2] M = Some [a, b, c, d] \<longrightarrow>
        map m_distance (measurements (hybrid_calculateDistance L now s)) =
          map m_distance (measurements s) @ [js_div (euclid a b c d) (Fin 10)] \<and>
        out (hybrid_calculateDistance L now s) =
          out s @ [CvMatFromArray [p_x p1, p_y p1, p_x p2, p_y p2], CvNewMat,
                   CvPerspectiveTransform [p_x p1, p_y p1, p_x p2, p_y p2] M,
                   ShowMessage ''Distance'', CvDelete, CvDelete])
   \<and> (perspectiveMatrix (opencv_step L s e) = perspectiveMatrix s \<or>
      perspectiveMatrix (opencv_step L s e) = None \<or>
      from_library L (perspectiveMatrix (opencv_step L s e)))
   \<and> (perspectiveMatrix (hybrid_step L s e') = perspectiveMatrix s \<or>
      perspectiveMatrix (hybrid_step L s e') = None \<or>
      from_library L (perspectiveMatrix (hybrid_step L s e')))
   \<and> opencv_inv (opencv_run L es) \<and> hybrid_inv (hybrid_run L es')"
proof -
  have a: "calibrationPoints s = [c1, c2, c3, c4] \<and> isOpenCVReady s \<and> referenceObject s = Some r \<and>
    ref_width r = Some (Fin W) \<and> ref_height r = Some (Fin H) \<and>
    getPerspectiveTransform L
      [c_x c1, c_y c1, c_x c2, c_y c2, c_x c3, c_y c3, c_x c4, c_y c4]
      [Fin 0, Fin 0, Fin (W * 10), Fin 0, Fin (W * 10), Fin (H * 10), Fin 0, Fin (H * 10)]
      = Some M \<Longrightarrow>
      out (opencv_completePrecisionCalibration L s) =
        out s @
        [CvMatFromArray [c_x c1, c_y c1, c_x c2, c_y c2, c_x c3, c_y c3, c_x c4, c_y c4],
         CvMatFromArray
           [Fin 0, Fin 0, Fin (W * 10), Fin 0, Fin (W * 10), Fin (H * 10), Fin 0, Fin (H * 10)],
         CvGetPerspectiveTransform
           [c_x c1, c_y c1, c_x c2, c_y c2, c_x c3, c_y c3, c_x c4, c_y c4]
           [Fin 0, Fin 0, Fin (W * 10), Fin 0, Fin (W * 10), Fin (H * 10), Fin 0, Fin (H * 10)],
         CvDelete, CvDelete, ShowMessage ''Precision calibration successful!''] \<and>
      perspectiveMatrix (opencv_completePrecisionCalibration L s) = Some M \<and>
      out (settle (hybrid_completePrecisionCalibration L s)) =
        out s @
        [CvMatFromArray [c_x c1, c_y c1, c_x c2, c_y c2, c_x c3, c_y c3, c_x c4, c_y c4],
         CvMatFromArray
           [Fin 0, Fin 0, Fin (W * 10), Fin 0, Fin (W * 10), Fin (H * 10), Fin 0, Fin (H * 10)],
         CvGetPerspectiveTransform
           [c_x c1, c_y c1, c_x c2, c_y c2, c_x c3, c_y c3, c_x c4, c_y c4]
           [Fin 0, Fin 0, Fin (W * 10), Fin 0, Fin (W * 10), Fin (H * 10), Fin 0, Fin (H * 10)],
         CvDelete, CvDelete, ShowMessage ''Calibration successful!''] \<and>
      perspectiveMatrix (settle (hybrid_completePrecisionCalibration L s)) = Some M"
  proof -
    assume h: "calibrationPoints s = [c1, c2, c3, c4] \<and> isOpenCVReady s \<and>
      referenceObject s = Some r \<and>
      ref_width r = Some (Fin W) \<and> ref_height r = Some (Fin H) \<and>
      getPerspectiveTransform L
        [c_x c1, c_y c1, c_x c2, c_y c2, c_x c3, c_y c3, c_x c4, c_y c4]
        [Fin 0, Fin 0, Fin (W * 10), Fin 0, Fin (W * 10), Fin (H * 10), Fin 0, Fin (H * 10)]
        = Some M"
    then have d: "dstPoints (ToNumber (ref_width r)) (ToNumber (ref_height r)) (Fin 10) =
        [Fin 0, Fin 0, Fin (W * 10), Fin 0, Fin (W * 10), Fin (H * 10), Fin 0, Fin (H * 10)]"
      by (simp add: ToNumber_Some dstPoints_finite)
    from h have g: "getPerspectiveTransform L (flat_corners [c1, c2, c3, c4])
           (dstPoints (ToNumber (ref_width r)) (ToNumber (ref_height r)) (Fin 10)) = Some M"
      unfolding d flat_corners_four by blast
    from h have p: "calibrationPoints s = [c1, c2, c3, c4]" and q: "isOpenCVReady s"
      and u: "referenceObject s = Some r" by auto
    from opencv_completion(1,2)[OF p q u g, unfolded d flat_corners_four]
      hybrid_completion(1,2)[OF p q u g, unfolded d flat_corners_four]
    show ?thesis by blast
  qed
  show ?thesis
    using a opencv_precise_measure[of s p1 p2 M L a b c d now]
      hybrid_precise_measure[of s cd p1 p2 M L a b c d now]
      opencv_step_provenance[of L s e] hybrid_step_provenance[of L s e']
      opencv_inv_run[of L es] hybrid_inv_run[of L es']
    by blast
qed

theorem perspective_transform_by_library_witness:
  "perspectiveMatrix (opencv_completePrecisionCalibration sample_cv
      ((constructor :: unit app)\<lparr>isOpenCVReady := True,
         referenceObject := Some (rect_ref ''Business Card'' 89 51),
         calibrationPoints :=
           [\<lparr>c_x = Fin 0, c_y = Fin 0, c_step = 1\<rparr>, \<lparr>c_x = Fin 9, c_y = Fin 0, c_step = 2\<rparr>,
            \<lparr>c_x = Fin 9, c_y = Fin 5, c_step = 3\<rparr>, \<lparr>c_x = Fin 0, c_y = Fin 5, c_step = 4\<rparr>]\<rparr>))
     = Some ()
   \<and> filter is_solve (out (opencv_completePrecisionCalibration sample_cv
      ((constructor :: unit app)\<lparr>isOpenCVReady := True,
         referenceObject := Some (rect_ref ''Business Card'' 89 51),
         calibrationPoints :=
           [\<lparr>c_x = Fin 0, c_y = Fin 0, c_step = 1\<rparr>, \<lparr>c_x = Fin 9, c_y = Fin 0, c_step = 2\<rparr>,
            \<lparr>c_x = Fin 9, c_y = Fin 5, c_step = 3\<rparr>, \<lparr>c_x = Fin 0, c_y = Fin 5, c_step = 4\<rparr>]\<rparr>)))
     = [CvGetPerspectiveTransform
          [Fin 0, Fin 0, Fin 9, Fin 0, Fin 9, Fin 5, Fin 0, Fin 5]
          [Fin 0, Fin 0, Fin 890, Fin 0, Fin 890, Fin 510, Fin 0, Fin 510]]
   \<and> map m_distance (measurements (opencv_calculatePreciseDistance sample_cv 7
      ((constructor :: unit app)\<lparr>isCalibrated := True, currentMode := Some ''precision'',
         perspectiveMatrix := Some (),
         calibrationData := Some
           \<lparr>cd_pixelsPerMM = Some (Fin 1), cd_perspectiveMatrix = Some (),
            cd_referenceObject = rect_ref ''Business Card'' 89 51, cd_scale = Some (Fin 10),
            cd_mode = None, cd_calibrationFactor = None, cd_distanceCorrection = None\<rparr>,
         measurementPoints :=
           [\<lparr>p_x = Fin 0, p_y = Fin 0, p_timestamp = 5\<rparr>,
            \<lparr>p_x = Fin 3, p_y = Fin 4, p_timestamp = 6\<rparr>]\<rparr>)))
     = [Fin (1 / 2)]"
proof -
  let ?s = "(constructor :: unit app)\<lparr>isOpenCVReady := True,
         referenceObject := Some (rect_ref ''Business Card'' 89 51),
         calibrationPoints :=
           [\<lparr>c_x = Fin 0, c_y = Fin 0, c_step = 1\<rparr>, \<lparr>c_x = Fin 9, c_y = Fin 0, c_step = 2\<rparr>,
            \<lparr>c_x = Fin 9, c_y = Fin 5, c_step = 3\<rparr>, \<lparr>c_x = Fin 0, c_y = Fin 5, c_step = 4\<rparr>]\<rparr>"
  let ?t = "(constructor :: unit app)\<lparr>isCalibrated := True, currentMode := Some ''precision'',
         perspectiveMatrix := Some (),
         calibrationData := Some
           \<lparr>cd_pixelsPerMM = Some (Fin 1), cd_perspectiveMatrix = Some (),
            cd_referenceObject = rect_ref ''Business Card'' 89 51, cd_scale = Some (Fin 10),
            cd_mode = None, cd_calibrationFactor = None, cd_distanceCorrection = None\<rparr>,
         measurementPoints :=
           [\<lparr>p_x = Fin 0, p_y = Fin 0, p_timestamp = 5\<rparr>,
            \<lparr>p_x = Fin 3, p_y = Fin 4, p_timestamp = 6\<rparr>]\<rparr>"
  have a: "perspectiveMatrix (opencv_completePrecisionCalibration sample_cv ?s) = Some ()
    \<and> filter is_solve (out (opencv_completePrecisionCalibration sample_cv ?s))
     = [CvGetPerspectiveTransform
          [Fin 0, Fin 0, Fin 9, Fin 0, Fin 9, Fin 5, Fin 0, Fin 5]
          [Fin 0, Fin 0, Fin 890, Fin 0, Fin 890, Fin 510, Fin 0, Fin 510]]"
    using perspective_transform_by_library[
        where s = ?s and L = sample_cv and r = "rect_ref ''Business Card'' 89 51"
          and W = 89 and H = 51 and M = "()"
          and ?c1.0 = "\<lparr>c_x = Fin 0, c_y = Fin 0, c_step = 1\<rparr>"
          and ?c2.0 = "\<lparr>c_x = Fin 9, c_y = Fin 0, c_step = 2\<rparr>"
          and ?c3.0 = "\<lparr>c_x = Fin 9, c_y = Fin 5, c_step = 3\<rparr>"
          and ?c4.0 = "\<lparr>c_x = Fin 0, c_y = Fin 5, c_step = 4\<rparr>", THEN conjunct1]
    by (simp add: constructor_def rect_ref_def sample_cv_def is_solve_def)
  have b: "map m_distance (measurements (opencv_calculatePreciseDistance sample_cv 7 ?t))
     = [Fin (1 / 2)]"
    using perspective_transform_by_library[
        where s = ?t and L = sample_cv and M = "()" and now = 7
          and ?p1.0 = "\<lparr>p_x = Fin 0, p_y = Fin 0, p_timestamp = 5\<rparr>"
          and ?p2.0 = "\<lparr>p_x = Fin 3, p_y = Fin 4, p_timestamp = 6\<rparr>"
          and a = "Fin 0" and b = "Fin 0" and c = "Fin 3" and d = "Fin 4",
        THEN conjunct2, THEN conjunct1]
    by (simp add: constructor_def sample_cv_def opencv_inv_def euclid_def Math_pow_2 js_sub_def)
  from a b show ?thesis by blast
qed

section \<open>The stored measurement records\<close>












lemma storeMeasurement_record:
  "(md = ''precision'' \<and> acc = ''high'') \<or> (md = ''enhanced_basic'' \<and> acc = ''medium'') \<Longrightarrow>
   distanceInUnit = js_mul distanceInMM (factor (currentUnit s)) \<Longrightarrow>
     \<exists>m. measurements (storeMeasurement now distanceInMM distanceInUnit md acc s) =
           measurements s @ [m] \<and> hybrid_label m \<and>
         m_id m = now \<and> m_timestamp m = now \<and> m_unit m = currentUnit s \<and>
         m_displayDistance m = js_mul (m_distance m) (factor (currentUnit s)) \<and>
         m_points m = measurementPoints s"
  by (auto simp: storeMeasurement_def Let_def hybrid_label_def resetMeasurementState_def emit_def)













section \<open>Export\<close>























end
